theory Spec2Isabelle
  imports Main
begin

section \<open>JavaScript values and strings\<close>

text \<open>
  Strings are byte strings (UTF-8). The source only compares text against ASCII
  patterns, case-insensitively. JavaScript's case-insensitive matching without the
  \<^verbatim>\<open>u\<close> flag never lets a character outside ASCII match an ASCII one, and no tag
  name with a character outside ASCII lower-cases to \<^verbatim>\<open>a\<close>, \<^verbatim>\<open>button\<close> or
  \<^verbatim>\<open>input\<close>, so folding the 26 ASCII capitals is all the comparisons need.
\<close>

definition lower_char :: "char \<Rightarrow> char" where
  "lower_char c =
     (case map_of (zip ''ABCDEFGHIJKLMNOPQRSTUVWXYZ'' ''abcdefghijklmnopqrstuvwxyz'') c of
        Some d \<Rightarrow> d
      | None \<Rightarrow> c)"

definition toLowerCase :: "string \<Rightarrow> string" where
  "toLowerCase s = map lower_char s"

fun starts_with :: "string \<Rightarrow> string \<Rightarrow> bool" where
  "starts_with [] s = True"
| "starts_with (p # ps) [] = False"
| "starts_with (p # ps) (c # cs) = (p = c \<and> starts_with ps cs)"

fun includes_str :: "string \<Rightarrow> string \<Rightarrow> bool" where
  "includes_str p [] = starts_with p []"
| "includes_str p (c # cs) = (starts_with p (c # cs) \<or> includes_str p cs)"

text \<open>
  The regular expression \<^verbatim>\<open>/tee times|book(ing)? tee times|reserve/i\<close> of
  \<^verbatim>\<open>findTeeTimes\<close>, as \<^verbatim>\<open>regex.test\<close> applies it (no \<^verbatim>\<open>g\<close> flag, so every
  test starts afresh): some alternative occurs somewhere in the text, letters compared
  without case.
\<close>

definition regex_test :: "string \<Rightarrow> bool" where
  "regex_test s =
     (let t = toLowerCase s in
      includes_str ''tee times'' t \<or> includes_str ''book tee times'' t \<or>
      includes_str ''booking tee times'' t \<or> includes_str ''reserve'' t)"

text \<open>A string is truthy when it is not empty; \<^verbatim>\<open>null\<close> and \<^verbatim>\<open>undefined\<close> are falsy.\<close>

fun truthy :: "string option \<Rightarrow> bool" where
  "truthy None = False"
| "truthy (Some s) = (s \<noteq> [])"

section \<open>DOM elements and the in-page callbacks\<close>

text \<open>
  An element as the callbacks read it: its \<^verbatim>\<open>tagName\<close>, its \<^verbatim>\<open>textContent\<close>
  (nullable in the DOM's types), its \<^verbatim>\<open>href\<close> property, and what
  \<^verbatim>\<open>el.querySelector("a")\<close> returns (the first descendant link, or null).
\<close>

datatype element =
  Element (tagName: string) (textContent: "string option") (href: string)
    (querySelector_a: "element option")

text \<open>\<^verbatim>\<open>el.textContent || ""\<close>\<close>

fun text_or_empty :: "string option \<Rightarrow> string" where
  "text_or_empty None = []"
| "text_or_empty (Some s) = s"

definition text_matches :: "element \<Rightarrow> bool" where
  "text_matches el = regex_test (text_or_empty (textContent el))"

text \<open>
  The callback of the first \<^verbatim>\<open>page.evaluate\<close> of \<^verbatim>\<open>findTeeTimes\<close>, run over
  the elements that \<^verbatim>\<open>document.querySelectorAll(sel)\<close> returned, in document order.
  \<^verbatim>\<open>None\<close> is JavaScript's \<^verbatim>\<open>null\<close>.
\<close>

fun findEntryPoint :: "element list \<Rightarrow> string option" where
  "findEntryPoint [] = None"
| "findEntryPoint (el # elements) =
     (if regex_test (text_or_empty (textContent el)) then
        (if toLowerCase (tagName el) = ''a'' then Some (href el)
         else if toLowerCase (tagName el) = ''button'' then
           (case querySelector_a el of
              Some linkInside \<Rightarrow> Some (href linkInside)
            | None \<Rightarrow> None)
         else findEntryPoint elements)
      else findEntryPoint elements)"

text \<open>
  The callback of the second \<^verbatim>\<open>page.evaluate\<close> (the click fallback) looks for the
  first element of \<^verbatim>\<open>document.querySelectorAll("a,button")\<close> whose text matches; it
  clicks that element and returns true, or returns false when there is none.
\<close>

fun firstMatch :: "element list \<Rightarrow> element option" where
  "firstMatch [] = None"
| "firstMatch (el # elements) =
     (if regex_test (text_or_empty (textContent el)) then Some el else firstMatch elements)"

text \<open>The callback of the first \<^verbatim>\<open>page.$eval\<close> of the date loop.\<close>

definition isInputElement :: "element \<Rightarrow> bool" where
  "isInputElement el = (toLowerCase (tagName el) = ''input'')"

section \<open>Programs: results, exceptions, state\<close>

text \<open>
  An awaited call either returns a value or throws. An exception is kept as the text
  that \<^verbatim>\<open>${error}\<close> and \<^verbatim>\<open>String(error)\<close> render, which is all the source does
  with one: \<^verbatim>\<open>new Error("m")\<close> is \<^verbatim>\<open>Error: m\<close>.
\<close>

datatype 'a outcome = is_Returns: Returns 'a | Throws string

type_synonym ('s, 'a) prog = "'s \<Rightarrow> 'a outcome \<times> 's"

definition ret :: "'a \<Rightarrow> ('s, 'a) prog" where
  "ret x = (\<lambda>s. (Returns x, s))"

definition raise :: "string \<Rightarrow> ('s, 'a) prog" where
  "raise e = (\<lambda>s. (Throws e, s))"

definition and_then :: "('s, 'a) prog \<Rightarrow> ('a \<Rightarrow> ('s, 'b) prog) \<Rightarrow> ('s, 'b) prog" where
  "and_then m k = (\<lambda>s. case m s of (Returns x, s') \<Rightarrow> k x s' | (Throws e, s') \<Rightarrow> (Throws e, s'))"

text \<open>\<^verbatim>\<open>try { m } catch (error) { h error }\<close>\<close>

definition try_catch :: "('s, 'a) prog \<Rightarrow> (string \<Rightarrow> ('s, 'a) prog) \<Rightarrow> ('s, 'a) prog" where
  "try_catch m h = (\<lambda>s. case m s of (Returns x, s') \<Rightarrow> (Returns x, s') | (Throws e, s') \<Rightarrow> h e s')"

text \<open>
  \<^verbatim>\<open>try { m } finally { f }\<close>: \<open>f\<close> runs however \<open>m\<close> ends; when \<open>f\<close> throws,
  its exception replaces the result of \<open>m\<close>.
\<close>

definition try_finally :: "('s, 'a) prog \<Rightarrow> ('s, unit) prog \<Rightarrow> ('s, 'a) prog" where
  "try_finally m f =
     (\<lambda>s. case m s of (r, s') \<Rightarrow>
        (case f s' of (Returns u, s'') \<Rightarrow> (r, s'') | (Throws e, s'') \<Rightarrow> (Throws e, s'')))"

section \<open>The browser, the agent and the model as the code calls them\<close>

text \<open>
  A chat message as \<^verbatim>\<open>onChatMessage\<close> builds one.
\<close>

datatype role = User | Assistant | System

record message =
  msg_id :: string
  msg_role :: role
  msg_content :: string
  createdAt :: nat

text \<open>
  What \<^verbatim>\<open>when\<close> of \<^verbatim>\<open>scheduleTask\<close> holds, by its \<^verbatim>\<open>type\<close>. The date and
  the delay (a JavaScript number) are kept as the text a template string prints for them.
\<close>

datatype schedule_when =
    Scheduled string
  | Delayed string
  | Cron string
  | No_schedule
  | Other_type string

text \<open>
  Puppeteer, the Agents SDK, the AI SDK and the JavaScript runtime are not code of the
  repository: they are a parameter. \<open>'w\<close> is the state of everything outside the
  program (the browser, its pages, the network, the clock); each call gets the
  current state and gives its outcome and the next state. Any awaited call may throw.
  \<^item> \<open>getStore\<close>: \<^verbatim>\<open>agentContext.getStore()\<close> holds an agent with a \<^verbatim>\<open>browse\<close> method;
  \<^item> \<open>MYBROWSER\<close>: \<^verbatim>\<open>this.env?.MYBROWSER\<close> is there (\<^verbatim>\<open>getBrowserInstance\<close>);
  \<^item> \<open>querySelectorAll\<close>: the elements \<^verbatim>\<open>document.querySelectorAll(sel)\<close> gives a
    callback of \<^verbatim>\<open>page.evaluate\<close> or \<^verbatim>\<open>page.$$eval\<close>, in document order (the call
    throws when the page cannot run the callback);
  \<^item> \<open>querySelector\<close>: the element \<^verbatim>\<open>page.$eval(sel, f)\<close> hands to \<open>f\<close> (the call
    throws when no element matches);
  \<^item> \<open>click\<close>, \<open>setValue\<close>, \<open>dispatchEvent\<close>: what a callback does to an element
    (\<^verbatim>\<open>el.click()\<close>, \<^verbatim>\<open>el.value = v\<close>, \<^verbatim>\<open>el.dispatchEvent(new Event(name, { bubbles }))\<close>);
    when one throws, the \<^verbatim>\<open>evaluate\<close> or \<^verbatim>\<open>$eval\<close> around it throws;
  \<^item> \<open>Date_now\<close>: \<^verbatim>\<open>Date.now()\<close>; \<open>new_Date\<close>: \<^verbatim>\<open>new Date()\<close>, a second reading
    of the clock;
  \<^item> \<open>schedule\<close>: the call \<^verbatim>\<open>agent.schedule(...)\<close> itself, which the source does not
    await: it throws only when the call throws, and a promise it returns is dropped;
  \<^item> \<open>processToolCalls\<close>: \<^verbatim>\<open>processToolCalls\<close> of \<^verbatim>\<open>./utils\<close> on the messages;
    \<open>streamText\<close>: \<^verbatim>\<open>streamText\<close> with its system prompt, its messages, whether it
    gets the tools, and \<^verbatim>\<open>maxSteps\<close>;
  \<^item> \<open>sleep\<close>: \<^verbatim>\<open>await new Promise(resolve => setTimeout(resolve, ms))\<close>, which
    cannot throw; \<open>page_url\<close>: \<^verbatim>\<open>page.url()\<close>, which is not awaited and reads the state.
\<close>

record 'w env =
  getStore :: "'w \<Rightarrow> bool"
  MYBROWSER :: "'w \<Rightarrow> bool"
  encodeURIComponent :: "string \<Rightarrow> string"
  Date_now :: "'w \<Rightarrow> nat"
  new_Date :: "'w \<Rightarrow> nat"
  launch :: "'w \<Rightarrow> unit outcome \<times> 'w"
  newPage :: "'w \<Rightarrow> unit outcome \<times> 'w"
  goto :: "string \<Rightarrow> 'w \<Rightarrow> unit outcome \<times> 'w"
  waitForSelector :: "string \<Rightarrow> nat option \<Rightarrow> bool \<Rightarrow> 'w \<Rightarrow> unit outcome \<times> 'w"
  page_content :: "'w \<Rightarrow> string outcome \<times> 'w"
  querySelectorAll :: "string \<Rightarrow> 'w \<Rightarrow> element list outcome \<times> 'w"
  querySelector :: "string \<Rightarrow> 'w \<Rightarrow> element outcome \<times> 'w"
  click :: "element \<Rightarrow> 'w \<Rightarrow> unit outcome \<times> 'w"
  waitForNavigation :: "nat \<Rightarrow> 'w \<Rightarrow> unit outcome \<times> 'w"
  setValue :: "element \<Rightarrow> string \<Rightarrow> 'w \<Rightarrow> unit outcome \<times> 'w"
  dispatchEvent :: "element \<Rightarrow> string \<Rightarrow> bool \<Rightarrow> 'w \<Rightarrow> unit outcome \<times> 'w"
  sleep :: "nat \<Rightarrow> 'w \<Rightarrow> 'w"
  page_url :: "'w \<Rightarrow> string"
  page_close :: "'w \<Rightarrow> unit outcome \<times> 'w"
  browser_close :: "'w \<Rightarrow> unit outcome \<times> 'w"
  schedule :: "schedule_when \<Rightarrow> string \<Rightarrow> string \<Rightarrow> 'w \<Rightarrow> unit outcome \<times> 'w"
  getSchedules :: "'w \<Rightarrow> string list outcome \<times> 'w"
  cancelSchedule :: "string \<Rightarrow> 'w \<Rightarrow> unit outcome \<times> 'w"
  processToolCalls :: "message list \<Rightarrow> 'w \<Rightarrow> message list outcome \<times> 'w"
  streamText :: "string \<Rightarrow> message list \<Rightarrow> bool \<Rightarrow> nat option \<Rightarrow> 'w \<Rightarrow> unit outcome \<times> 'w"
  mergeIntoDataStream :: "'w \<Rightarrow> unit outcome \<times> 'w"

text \<open>
  The calls the program makes are logged in order, each with whether it returned, so
  that a claim about what the program does to the browser is a statement about the log.
\<close>

datatype call =
    Launch
  | NewPage
  | Goto string
  | WaitForSelector string "nat option" bool
  | PageContent
  | QuerySelectorAll string
  | QuerySelector string
  | Click element
  | WaitForNavigation nat
  | SetValue element string
  | DispatchEvent element string bool
  | Sleep nat
  | PageClose
  | BrowserClose
  | Schedule schedule_when string string
  | GetSchedules
  | CancelSchedule string
  | ProcessToolCalls "message list"
  | StreamText string "message list" bool "nat option"
  | MergeIntoDataStream

type_synonym 'w st = "'w \<times> (call \<times> bool) list"

definition perform :: "call \<Rightarrow> ('w \<Rightarrow> 'a outcome \<times> 'w) \<Rightarrow> ('w st, 'a) prog" where
  "perform c f = (\<lambda>s. case f (fst s) of (r, w') \<Rightarrow> (r, (w', snd s @ [(c, is_Returns r)])))"

section \<open>\<^verbatim>\<open>DashAgent.browse\<close> (server.ts)\<close>

text \<open>A result of \<^verbatim>\<open>browse\<close>: a string (the page's HTML, or an error text) or the array of links.\<close>

datatype jsval = Str string | Arr "string list"

text \<open>
  The local array \<^verbatim>\<open>responses\<close> is part of the state while \<^verbatim>\<open>browse\<close> runs:
  the body of the \<^verbatim>\<open>try\<close> pushes to it before it may still throw.
\<close>

type_synonym 'w browse_st = "jsval list \<times> 'w st"

text \<open>A program on the outside world and the log, run beside a local variable it leaves alone.\<close>

definition in_world :: "('s, 'a) prog \<Rightarrow> ('l \<times> 's, 'a) prog" where
  "in_world m = (\<lambda>(l, s). case m s of (r, s') \<Rightarrow> (r, (l, s')))"

definition push :: "jsval \<Rightarrow> ('w browse_st, unit) prog" where
  "push v = (\<lambda>(responses, s). (Returns (), (responses @ [v], s)))"

definition browse_try :: "'w env \<Rightarrow> bool \<Rightarrow> string \<Rightarrow> ('w browse_st, unit) prog" where
  "browse_try E returnHtml u =
     and_then (in_world (perform Launch (launch E))) (\<lambda>_.
     and_then (in_world (perform NewPage (newPage E))) (\<lambda>_.
     and_then (in_world (perform (Goto u) (goto E u))) (\<lambda>_.
     and_then (in_world (perform (WaitForSelector ''body'' None False)
                          (waitForSelector E ''body'' None False))) (\<lambda>_.
     and_then
       (if returnHtml then
          and_then (in_world (perform PageContent (page_content E))) (\<lambda>html. push (Str html))
        else
          and_then (in_world (perform (QuerySelectorAll ''a'') (querySelectorAll E ''a'')))
            (\<lambda>as. push (Arr (map href as)))) (\<lambda>_.
     in_world (perform BrowserClose (browser_close E)))))))"

definition browse_url :: "'w env \<Rightarrow> bool \<Rightarrow> string \<Rightarrow> ('w browse_st, unit) prog" where
  "browse_url E returnHtml u =
     try_catch (browse_try E returnHtml u)
       (\<lambda>error. push (Str (''Error browsing URL '' @ u @ '': '' @ error)))"

fun browse_loop :: "'w env \<Rightarrow> bool \<Rightarrow> string list \<Rightarrow> ('w browse_st, unit) prog" where
  "browse_loop E returnHtml [] = ret ()"
| "browse_loop E returnHtml (u # urls) =
     and_then (browse_url E returnHtml u) (\<lambda>_. browse_loop E returnHtml urls)"

definition browse :: "'w env \<Rightarrow> string list \<Rightarrow> bool \<Rightarrow> ('w st, jsval list) prog" where
  "browse E urls returnHtml =
     (\<lambda>s. case browse_loop E returnHtml urls ([], s) of
        (Returns u, (responses, s')) \<Rightarrow> (Returns responses, s')
      | (Throws e, (responses, s')) \<Rightarrow> (Throws e, s'))"

section \<open>\<^verbatim>\<open>findTeeTimes\<close> (tools.ts)\<close>

text \<open>
  \<^verbatim>\<open>html.match(/<a href="\/url\?q=(https?:\/\/[^&"]+)/)\<close>: the leftmost place where
  the pattern matches, and there its group 1. \<open>match_here\<close> matches at the start of
  its argument. The optional \<^verbatim>\<open>s\<close> and the greedy class need no backtracking: after a
  skipped \<^verbatim>\<open>s\<close> the next character would have to be \<^verbatim>\<open>:\<close>, and nothing follows
  the class.
\<close>

fun strip_prefix :: "string \<Rightarrow> string \<Rightarrow> string option" where
  "strip_prefix [] s = Some s"
| "strip_prefix (p # ps) [] = None"
| "strip_prefix (p # ps) (c # cs) = (if p = c then strip_prefix ps cs else None)"

definition match_here :: "string \<Rightarrow> string option" where
  "match_here s =
     (case strip_prefix (''<a href='' @ [CHR 0x22] @ ''/url?q=http'') s of
        None \<Rightarrow> None
      | Some r \<Rightarrow>
          (let (scheme, r') = (case strip_prefix ''s'' r of
                                 Some t \<Rightarrow> (''https'', t)
                               | None \<Rightarrow> (''http'', r)) in
           case strip_prefix ''://'' r' of
             None \<Rightarrow> None
           | Some t \<Rightarrow>
               (let rest = takeWhile (\<lambda>c. c \<noteq> CHR ''&'' \<and> c \<noteq> CHR 0x22) t in
                if rest = [] then None else Some (scheme @ ''://'' @ rest))))"

fun extractCourseUrl :: "string \<Rightarrow> string option" where
  "extractCourseUrl [] = match_here []"
| "extractCourseUrl (c # cs) =
     (case match_here (c # cs) of Some u \<Rightarrow> Some u | None \<Rightarrow> extractCourseUrl cs)"

definition googleSearchUrl :: "'w env \<Rightarrow> string \<Rightarrow> string" where
  "googleSearchUrl E courseName =
     ''https://www.google.com/search?q='' @
     encodeURIComponent E (courseName @ '' golf course official website'')"

definition linkSelectors :: "string list" where
  "linkSelectors = [''a'', ''button'']"

definition dateSelectors :: "string list" where
  "dateSelectors =
     [''input[type='' @ [CHR 0x22] @ ''date'' @ [CHR 0x22] @ '']'',
      ''input[name*='' @ [CHR 0x22] @ ''date'' @ [CHR 0x22] @ '']'',
      ''input[id*='' @ [CHR 0x22] @ ''date'' @ [CHR 0x22] @ '']'',
      ''.datepicker'',
      ''.date-picker'',
      ''[aria-label*='' @ [CHR 0x22] @ ''date'' @ [CHR 0x22] @ '']'']"

text \<open>
  The loop over \<^verbatim>\<open>linkSelectors\<close> (lines 219 to 249). The third argument is the
  variable \<^verbatim>\<open>teeTimesHref\<close>; the result is its value when the loop ends. A failed
  \<^verbatim>\<open>waitForSelector\<close> is caught and the loop continues; a failed
  \<^verbatim>\<open>page.evaluate\<close> is not caught here.
\<close>

fun locateEntryPoint :: "'w env \<Rightarrow> string list \<Rightarrow> string option \<Rightarrow> ('w st, string option) prog" where
  "locateEntryPoint E [] teeTimesHref s = (Returns teeTimesHref, s)"
| "locateEntryPoint E (selector # rest) teeTimesHref s =
     (case perform (WaitForSelector selector (Some 5000) True)
             (waitForSelector E selector (Some 5000) True) s of
        (Throws e, s1) \<Rightarrow> locateEntryPoint E rest teeTimesHref s1
      | (Returns u, s1) \<Rightarrow>
          (case perform (QuerySelectorAll selector) (querySelectorAll E selector) s1 of
             (Throws e, s2) \<Rightarrow> (Throws e, s2)
           | (Returns elements, s2) \<Rightarrow>
               (let found = findEntryPoint elements in
                if truthy found then (Returns found, s2)
                else locateEntryPoint E rest found s2)))"

text \<open>The second \<^verbatim>\<open>page.evaluate\<close> (lines 253 to 263); the result is \<^verbatim>\<open>clicked\<close>.\<close>

definition clickMatching :: "'w env \<Rightarrow> ('w st, bool) prog" where
  "clickMatching E =
     and_then (perform (QuerySelectorAll ''a,button'') (querySelectorAll E ''a,button''))
       (\<lambda>elements.
          case firstMatch elements of
            None \<Rightarrow> ret False
          | Some el \<Rightarrow> and_then (perform (Click el) (click E el)) (\<lambda>_. ret True))"

text \<open>
  The body of the \<^verbatim>\<open>try\<close> in the loop over \<^verbatim>\<open>dateSelectors\<close> (lines 291 to
  303); the result is whether the date was set, that is, whether the loop breaks.
\<close>

definition trySelector :: "'w env \<Rightarrow> string \<Rightarrow> string \<Rightarrow> ('w st, bool) prog" where
  "trySelector E date sel =
     and_then (perform (WaitForSelector sel (Some 3000) True)
                 (waitForSelector E sel (Some 3000) True)) (\<lambda>_.
     and_then (perform (QuerySelector sel) (querySelector E sel)) (\<lambda>el.
       if isInputElement el then
         and_then (perform (QuerySelector sel) (querySelector E sel)) (\<lambda>el'.
         and_then (perform (SetValue el' date) (setValue E el' date)) (\<lambda>_.
         and_then (perform (DispatchEvent el' ''input'' True)
                     (dispatchEvent E el' ''input'' True)) (\<lambda>_.
         and_then (perform (DispatchEvent el' ''change'' True)
                     (dispatchEvent E el' ''change'' True)) (\<lambda>_.
         ret True))))
       else ret False))"

text \<open>The loop over the date selectors; the result is the variable \<^verbatim>\<open>dateSet\<close>.\<close>

fun setDateLoop :: "'w env \<Rightarrow> string \<Rightarrow> string list \<Rightarrow> ('w st, bool) prog" where
  "setDateLoop E date [] s = (Returns False, s)"
| "setDateLoop E date (sel # rest) s =
     (case trySelector E date sel s of
        (Returns dateSet, s') \<Rightarrow>
          if dateSet then (Returns True, s') else setDateLoop E date rest s'
      | (Throws e, s') \<Rightarrow> setDateLoop E date rest s')"

text \<open>Lines 277 to 317: \<^verbatim>\<open>if (date) { ... }\<close>.\<close>

definition primeDate :: "'w env \<Rightarrow> string option \<Rightarrow> ('w st, unit) prog" where
  "primeDate E date =
     (case date of
        None \<Rightarrow> ret ()
      | Some d \<Rightarrow>
          if d = [] then ret ()
          else
            and_then (setDateLoop E d dateSelectors) (\<lambda>dateSet.
              if dateSet then perform (Sleep 2000) (\<lambda>w. (Returns (), sleep E 2000 w))
              else ret ()))"

text \<open>Lines 277 to 321: the date, then \<^verbatim>\<open>return page.url()\<close>.\<close>

definition primeDateAndReport :: "'w env \<Rightarrow> string option \<Rightarrow> ('w st, string) prog" where
  "primeDateAndReport E date =
     and_then (primeDate E date) (\<lambda>_. (\<lambda>s. (Returns (page_url E (fst s)), s)))"

text \<open>Lines 251 to 270 and what follows them: no usable href was found.\<close>

definition clickFallback :: "'w env \<Rightarrow> string option \<Rightarrow> ('w st, string) prog" where
  "clickFallback E date =
     and_then (clickMatching E) (\<lambda>clicked.
       if \<not> clicked then ret ''No tee times link or button found on the landing page.''
       else
         and_then (perform (WaitForNavigation 10000) (waitForNavigation E 10000)) (\<lambda>_.
         primeDateAndReport E date))"

text \<open>The body of the inner \<^verbatim>\<open>try\<close> once the page is open (lines 213 to 321).\<close>

definition teeTimesFlow :: "'w env \<Rightarrow> string \<Rightarrow> string option \<Rightarrow> ('w st, string) prog" where
  "teeTimesFlow E courseUrl date =
     and_then (perform (Goto courseUrl) (goto E courseUrl)) (\<lambda>_.
     and_then (locateEntryPoint E linkSelectors None) (\<lambda>teeTimesHref.
       case teeTimesHref of
         None \<Rightarrow> clickFallback E date
       | Some h \<Rightarrow>
           if h = [] then clickFallback E date
           else
             and_then (perform (Goto h) (goto E h)) (\<lambda>_.
             primeDateAndReport E date)))"

text \<open>
  Lines 209 to 331: \<^verbatim>\<open>page\<close> is null until \<^verbatim>\<open>browser.newPage()\<close> has returned,
  so when that call throws, the \<^verbatim>\<open>catch\<close> gives the error text and the
  \<^verbatim>\<open>finally\<close> closes nothing; afterwards the \<^verbatim>\<open>finally\<close> closes the page.
\<close>

definition findTeeTimesOnPage :: "'w env \<Rightarrow> string \<Rightarrow> string option \<Rightarrow> ('w st, string) prog" where
  "findTeeTimesOnPage E courseUrl date =
     (\<lambda>s. case perform NewPage (newPage E) s of
        (Throws e, s1) \<Rightarrow> (Returns (''Error finding tee times: '' @ e), s1)
      | (Returns u, s1) \<Rightarrow>
          try_finally
            (try_catch (teeTimesFlow E courseUrl date)
               (\<lambda>error. ret (''Error finding tee times: '' @ error)))
            (perform PageClose (page_close E)) s1)"

text \<open>The \<^verbatim>\<open>execute\<close> of \<^verbatim>\<open>findTeeTimes\<close> (lines 166 to 336).\<close>

definition findTeeTimes :: "'w env \<Rightarrow> string \<Rightarrow> string option \<Rightarrow> ('w st, string) prog" where
  "findTeeTimes E courseName date =
     (\<lambda>s0.
        if \<not> getStore E (fst s0) then
          (Throws ''Error: No agent with a browse method found'', s0)
        else
          try_catch
            (\<lambda>s.
               if \<not> MYBROWSER E (fst s) then
                 (Throws ''Error: Browser instance not found in agent environment'', s)
               else
                 and_then (browse E [googleSearchUrl E courseName] True) (\<lambda>searchResults.
                   case searchResults of
                     [] \<Rightarrow> ret ''No content returned from browsing Google search results.''
                   | Arr links # others \<Rightarrow> raise ''TypeError: htmlContent.match is not a function''
                   | Str htmlContent # others \<Rightarrow>
                       if htmlContent = [] then
                         ret ''No content returned from browsing Google search results.''
                       else
                         (case extractCourseUrl htmlContent of
                            None \<Rightarrow> ret ''No golf course website URL found in search results.''
                          | Some courseUrl \<Rightarrow>
                              if courseUrl = [] then
                                ret ''No golf course website URL found in search results.''
                              else
                                (\<lambda>s1.
                                   if \<not> MYBROWSER E (fst s1) then
                                     (Throws ''Error: Browser instance (Puppeteer) not found in agent environment'', s1)
                                   else findTeeTimesOnPage E courseUrl date s1))) s)
            (\<lambda>error. ret (''Unexpected error: '' @ error)) s0)"

section \<open>The tools and the executions table (tools.ts)\<close>

text \<open>\<^verbatim>\<open>Date.now()\<close> is a whole number of milliseconds, which a template string prints in decimal.\<close>

definition digit_char :: "nat \<Rightarrow> char" where
  "digit_char n = ''0123456789'' ! n"

function string_of_nat :: "nat \<Rightarrow> string" where
  "string_of_nat n =
     (if n < 10 then [digit_char n] else string_of_nat (n div 10) @ [digit_char (n mod 10)])"
  by pat_completeness auto
termination
  by (relation "measure id") auto

text \<open>
  A tool is its description and, when it has one, its \<^verbatim>\<open>execute\<close> function; a tool
  defined without \<^verbatim>\<open>execute\<close> needs the user's confirmation. The constructors of
  \<open>execute_fn\<close> are the shapes of \<^verbatim>\<open>parameters\<close>. What a tool returns is a text or
  an array. \<^verbatim>\<open>console.log\<close> and \<^verbatim>\<open>console.error\<close> are left out throughout.
\<close>

datatype tool_result = Text string | Items "jsval list"

datatype 'w execute_fn =
    With_city "string \<Rightarrow> ('w st, string) prog"
  | With_location "string \<Rightarrow> ('w st, string) prog"
  | With_when_description "schedule_when \<Rightarrow> string \<Rightarrow> ('w st, string) prog"
  | With_nothing "('w st, tool_result) prog"
  | With_taskId "string \<Rightarrow> ('w st, string) prog"
  | With_urls "string list \<Rightarrow> ('w st, tool_result) prog"
  | With_courseName "string \<Rightarrow> ('w st, string) prog"
  | With_courseName_date "string \<Rightarrow> string option \<Rightarrow> ('w st, string) prog"

record 'w tool =
  description :: string
  execute :: "'w execute_fn option"

definition getWeatherInformation :: "'w tool" where
  "getWeatherInformation =
     \<lparr>description = ''show the weather in a given city to the user'', execute = None\<rparr>"

definition getLocalTime_execute :: "string \<Rightarrow> ('s, string) prog" where
  "getLocalTime_execute location = ret ''10am''"

definition getLocalTime :: "'w tool" where
  "getLocalTime =
     \<lparr>description = ''get the local time for a specified location'',
      execute = Some (With_location getLocalTime_execute)\<rparr>"

fun when_type :: "schedule_when \<Rightarrow> string" where
  "when_type (Scheduled d) = ''scheduled''"
| "when_type (Delayed n) = ''delayed''"
| "when_type (Cron c) = ''cron''"
| "when_type No_schedule = ''no-schedule''"
| "when_type (Other_type t) = t"

definition scheduleTask_execute :: "'w env \<Rightarrow> schedule_when \<Rightarrow> string \<Rightarrow> ('w st, string) prog" where
  "scheduleTask_execute E when descr =
     (\<lambda>s.
        if \<not> getStore E (fst s) then (Throws ''Error: No agent found'', s)
        else
          (case when of
             No_schedule \<Rightarrow> (Returns ''Not a valid schedule input'', s)
           | Other_type t \<Rightarrow> (Throws ''Error: not a valid schedule input'', s)
           | _ \<Rightarrow>
               (let input = (case when of
                               Scheduled d \<Rightarrow> d
                             | Delayed n \<Rightarrow> n
                             | Cron c \<Rightarrow> c
                             | _ \<Rightarrow> [])
                in
                and_then
                  (try_catch
                     (and_then (perform (Schedule when ''executeTask'' descr)
                                  (schedule E when ''executeTask'' descr)) (\<lambda>_. ret None))
                     (\<lambda>error. ret (Some (''Error scheduling task: '' @ error))))
                  (\<lambda>returned.
                     case returned of
                       Some text \<Rightarrow> ret text
                     | None \<Rightarrow>
                         ret (''Task scheduled for type '' @ [CHR 0x22] @ when_type when @
                              [CHR 0x22] @ '' : '' @ input)) s)))"

definition scheduleTask :: "'w env \<Rightarrow> 'w tool" where
  "scheduleTask E =
     \<lparr>description = ''A tool to schedule a task to be executed at a later time'',
      execute = Some (With_when_description (scheduleTask_execute E))\<rparr>"

definition getScheduledTasks_execute :: "'w env \<Rightarrow> ('w st, tool_result) prog" where
  "getScheduledTasks_execute E =
     (\<lambda>s.
        if \<not> getStore E (fst s) then (Throws ''Error: No agent found'', s)
        else
          try_catch
            (and_then (perform GetSchedules (getSchedules E)) (\<lambda>tasks.
               if tasks = [] then ret (Text ''No scheduled tasks found.'')
               else ret (Items (map Str tasks))))
            (\<lambda>error. ret (Text (''Error listing scheduled tasks: '' @ error))) s)"

definition getScheduledTasks :: "'w env \<Rightarrow> 'w tool" where
  "getScheduledTasks E =
     \<lparr>description = ''List all tasks that have been scheduled'',
      execute = Some (With_nothing (getScheduledTasks_execute E))\<rparr>"

definition cancelScheduledTask_execute :: "'w env \<Rightarrow> string \<Rightarrow> ('w st, string) prog" where
  "cancelScheduledTask_execute E taskId =
     (\<lambda>s.
        if \<not> getStore E (fst s) then (Throws ''Error: No agent found'', s)
        else
          try_catch
            (and_then (perform (CancelSchedule taskId) (cancelSchedule E taskId)) (\<lambda>_.
               ret (''Task '' @ taskId @ '' has been successfully canceled.'')))
            (\<lambda>error. ret (''Error canceling task '' @ taskId @ '': '' @ error)) s)"

definition cancelScheduledTask :: "'w env \<Rightarrow> 'w tool" where
  "cancelScheduledTask E =
     \<lparr>description = ''Cancel a scheduled task using its ID'',
      execute = Some (With_taskId (cancelScheduledTask_execute E))\<rparr>"

definition browse_execute :: "'w env \<Rightarrow> string list \<Rightarrow> ('w st, tool_result) prog" where
  "browse_execute E urls =
     (\<lambda>s.
        if \<not> getStore E (fst s) then
          (Throws ''Error: No agent with a browse method found'', s)
        else
          try_catch
            (\<lambda>s1.
               if \<not> MYBROWSER E (fst s1) then
                 (Throws ''Error: Browser instance (MYBROWSER) not found in agent environment'', s1)
               else and_then (browse E urls False) (\<lambda>result. ret (Items result)) s1)
            (\<lambda>error. ret (Text (''Error during browsing: '' @ error))) s)"

definition browse_tool :: "'w env \<Rightarrow> 'w tool" where
  "browse_tool E =
     \<lparr>description = ''Browse the web and extract structured data.'',
      execute = Some (With_urls (browse_execute E))\<rparr>"

definition findGolfCourseWebsite_execute :: "'w env \<Rightarrow> string \<Rightarrow> ('w st, string) prog" where
  "findGolfCourseWebsite_execute E courseName =
     (\<lambda>s.
        if \<not> getStore E (fst s) then
          (Throws ''Error: No agent with a browse method found'', s)
        else
          try_catch
            (\<lambda>s1.
               if \<not> MYBROWSER E (fst s1) then
                 (Throws ''Error: Browser instance (MYBROWSER) not found in agent environment'', s1)
               else
                 and_then (browse E [googleSearchUrl E courseName] True) (\<lambda>searchResults.
                   case searchResults of
                     [] \<Rightarrow> ret ''No content returned from browsing Google search results.''
                   | Arr links # others \<Rightarrow> raise ''TypeError: htmlContent.match is not a function''
                   | Str htmlContent # others \<Rightarrow>
                       if htmlContent = [] then
                         ret ''No content returned from browsing Google search results.''
                       else
                         (case extractCourseUrl htmlContent of
                            None \<Rightarrow> ret ''No golf course website URL found in search results.''
                          | Some found \<Rightarrow>
                              if found = [] then
                                ret ''No golf course website URL found in search results.''
                              else ret found)) s1)
            (\<lambda>error. ret (''Error finding golf course website: '' @ error)) s)"

definition findGolfCourseWebsite :: "'w env \<Rightarrow> 'w tool" where
  "findGolfCourseWebsite E =
     \<lparr>description = ''Find the official website URL of a golf course by searching Google'',
      execute = Some (With_courseName (findGolfCourseWebsite_execute E))\<rparr>"

definition findTeeTimes_tool :: "'w env \<Rightarrow> 'w tool" where
  "findTeeTimes_tool E =
     \<lparr>description =
        ''Find the tee times page URL for a golf course, optionally for a specific date'',
      execute = Some (With_courseName_date (findTeeTimes E))\<rparr>"

text \<open>\<^verbatim>\<open>export const tools\<close>: the tools by their keys, in the order of the object.\<close>

definition tools :: "'w env \<Rightarrow> (string \<times> 'w tool) list" where
  "tools E =
     [(''getWeatherInformation'', getWeatherInformation),
      (''getLocalTime'', getLocalTime),
      (''scheduleTask'', scheduleTask E),
      (''getScheduledTasks'', getScheduledTasks E),
      (''cancelScheduledTask'', cancelScheduledTask E),
      (''browse'', browse_tool E),
      (''findGolfCourseWebsite'', findGolfCourseWebsite E),
      (''findTeeTimes'', findTeeTimes_tool E)]"

text \<open>\<^verbatim>\<open>export const executions\<close>: the functions of the tools that need confirmation.\<close>

definition executions :: "(string \<times> (string \<Rightarrow> ('s, string) prog)) list" where
  "executions =
     [(''getWeatherInformation'', \<lambda>city. ret (''The weather in '' @ city @ '' is sunny''))]"

text \<open>The keys of the tools that have no \<^verbatim>\<open>execute\<close>.\<close>

definition confirmRequired :: "(string \<times> 'w tool) list \<Rightarrow> string list" where
  "confirmRequired ts = map fst (filter (\<lambda>(name, t). execute t = None) ts)"

section \<open>\<^verbatim>\<open>DashAgent.onChatMessage\<close> (server.ts)\<close>

text \<open>
  \<^verbatim>\<open>this.messages\<close> is part of the state while the handler runs. The handler is the
  function given to \<^verbatim>\<open>createDataStreamResponse\<close> as \<^verbatim>\<open>execute\<close>.
\<close>

type_synonym 'w agent_st = "message list \<times> 'w st"

definition errorMessage :: "'w env \<Rightarrow> 'w \<Rightarrow> string \<Rightarrow> message" where
  "errorMessage E w error =
     \<lparr>msg_id = ''error-'' @ string_of_nat (Date_now E w),
      msg_role = Assistant,
      msg_content =
        ''I encountered an error while trying to perform a task: '' @ error @
        ''. Let'' @ [CHR 0x27] @
        ''s continue our conversation. How can I assist you further?'',
      createdAt = new_Date E w\<rparr>"

definition onChatMessage :: "'w env \<Rightarrow> ('w agent_st, unit) prog" where
  "onChatMessage E =
     try_catch
       (\<lambda>(messages, s).
          and_then
            (in_world (perform (ProcessToolCalls messages) (processToolCalls E messages)))
            (\<lambda>processedMessages.
               and_then
                 (in_world
                    (perform
                       (StreamText ''You are a helpful assistant that can do various tasks.''
                          processedMessages True (Some 10))
                       (streamText E ''You are a helpful assistant that can do various tasks.''
                          processedMessages True (Some 10))))
                 (\<lambda>_. in_world (perform MergeIntoDataStream (mergeIntoDataStream E))))
            (messages, s))
       (\<lambda>error. \<lambda>(messages, s).
          (let pushed = messages @ [errorMessage E (fst s) error] in
           and_then
             (in_world
                (perform (StreamText ''You are a helpful assistant.'' pushed False None)
                   (streamText E ''You are a helpful assistant.'' pushed False None)))
             (\<lambda>_. in_world (perform MergeIntoDataStream (mergeIntoDataStream E)))
             (pushed, s)))"

section \<open>How far a run has come, said in the calls the browser gets\<close>

text \<open>
  The definitions of this section are not code of the repository. They say, in the calls
  made and what these returned, that a run has come to some point, so that a theorem can
  say what the code does from there without assuming anything about the code's own result.
\<close>

text \<open>
  The search has given a page whose first result link is \<open>courseUrl\<close>, and a page
  has been opened and has loaded \<open>courseUrl\<close>, which leaves the state \<open>s3\<close>:
  the agent and the browser binding are there, and \<^verbatim>\<open>launch\<close>, \<^verbatim>\<open>newPage\<close>,
  \<^verbatim>\<open>goto\<close>, \<^verbatim>\<open>waitForSelector("body")\<close> and \<^verbatim>\<open>content\<close> of the search have
  returned (the browser of the search may or may not have closed).
\<close>

definition landing_page_reached :: "'w env \<Rightarrow> string \<Rightarrow> 'w st \<Rightarrow> string \<Rightarrow> 'w st \<Rightarrow> bool" where
  "landing_page_reached E courseName s courseUrl s3 =
     (\<exists>html sa sb sc sd se r s1 s2.
        getStore E (fst s) \<and> MYBROWSER E (fst s) \<and>
        perform Launch (launch E) s = (Returns (), sa) \<and>
        perform NewPage (newPage E) sa = (Returns (), sb) \<and>
        perform (Goto (googleSearchUrl E courseName)) (goto E (googleSearchUrl E courseName)) sb =
          (Returns (), sc) \<and>
        perform (WaitForSelector ''body'' None False) (waitForSelector E ''body'' None False) sc =
          (Returns (), sd) \<and>
        perform PageContent (page_content E) sd = (Returns html, se) \<and>
        perform BrowserClose (browser_close E) se = (r, s1) \<and>
        extractCourseUrl html = Some courseUrl \<and> MYBROWSER E (fst s1) \<and>
        perform NewPage (newPage E) s1 = (Returns (), s2) \<and>
        perform (Goto courseUrl) (goto E courseUrl) s2 = (Returns (), s3))"

text \<open>
  The element categories \<open>sels\<close> have been looked at in order, which leaves the state
  in the result: each category either did not appear within its 5000 ms, or its query
  returned elements that satisfy \<open>ok\<close>. The result is \<open>None\<close> when a query throws
  or returns elements that do not satisfy \<open>ok\<close>.
\<close>

fun scanned :: "'w env \<Rightarrow> (element list \<Rightarrow> bool) \<Rightarrow> string list \<Rightarrow> 'w st \<Rightarrow> 'w st option" where
  "scanned E ok [] s = Some s"
| "scanned E ok (sel # sels) s =
     (case perform (WaitForSelector sel (Some 5000) True)
             (waitForSelector E sel (Some 5000) True) s of
        (Throws e, s1) \<Rightarrow> scanned E ok sels s1
      | (Returns u, s1) \<Rightarrow>
          (case perform (QuerySelectorAll sel) (querySelectorAll E sel) s1 of
             (Throws e, s2) \<Rightarrow> None
           | (Returns elements, s2) \<Rightarrow>
               if ok elements then scanned E ok sels s2 else None))"


definition no_usable_href :: "element list \<Rightarrow> bool" where
  "no_usable_href elements = (\<not> truthy (findEntryPoint elements))"

text \<open>
  From the landing page (state \<open>s3\<close>) the page has come to the booking page (state
  \<open>s5\<close>), in one of the two ways there are. Directly: the categories before one gave
  no usable href, that one appeared, the matcher found the href \<open>h\<close> among its elements,
  and \<^verbatim>\<open>goto(h)\<close> returned. By a click: no category gave a usable href, the first
  matching element of \<^verbatim>\<open>a,button\<close> was clicked, and the wait for navigation returned.
\<close>

definition booking_page_reached :: "'w env \<Rightarrow> 'w st \<Rightarrow> 'w st \<Rightarrow> bool" where
  "booking_page_reached E s3 s5 =
     ((\<exists>before sel after s4 sa elements sb h.
         linkSelectors = before @ sel # after \<and>
         scanned E no_usable_href before s3 = Some s4 \<and>
         perform (WaitForSelector sel (Some 5000) True)
           (waitForSelector E sel (Some 5000) True) s4 = (Returns (), sa) \<and>
         perform (QuerySelectorAll sel) (querySelectorAll E sel) sa = (Returns elements, sb) \<and>
         findEntryPoint elements = Some h \<and> h \<noteq> [] \<and>
         perform (Goto h) (goto E h) sb = (Returns (), s5)) \<or>
      (\<exists>s4 elements el sa sb.
         scanned E no_usable_href linkSelectors s3 = Some s4 \<and>
         perform (QuerySelectorAll ''a,button'') (querySelectorAll E ''a,button'') s4 =
           (Returns elements, sa) \<and>
         firstMatch elements = Some el \<and>
         perform (Click el) (click E el) sa = (Returns (), sb) \<and>
         perform (WaitForNavigation 10000) (waitForNavigation E 10000) sb = (Returns (), s5)))"

text \<open>
  The date selectors \<open>sels\<close> have been tried in order and none of them resolved to an
  input element, which leaves the state in the result: for each, the wait timed out, or no
  element was found, or the element found is not an input. The result is \<open>None\<close> when
  one of them resolves to an input element.
\<close>

fun none_resolves :: "'w env \<Rightarrow> string list \<Rightarrow> 'w st \<Rightarrow> 'w st option" where
  "none_resolves E [] s = Some s"
| "none_resolves E (sel # sels) s =
     (case perform (WaitForSelector sel (Some 3000) True)
             (waitForSelector E sel (Some 3000) True) s of
        (Throws e, s1) \<Rightarrow> none_resolves E sels s1
      | (Returns u, s1) \<Rightarrow>
          (case perform (QuerySelector sel) (querySelector E sel) s1 of
             (Throws e, s2) \<Rightarrow> none_resolves E sels s2
           | (Returns el, s2) \<Rightarrow>
               if isInputElement el then None else none_resolves E sels s2))"

text \<open>
  What \<^verbatim>\<open>findTeeTimes\<close> does on the landing page once it has loaded: the rest of the
  body of the inner \<^verbatim>\<open>try\<close>, lines 216 to 321, as \<open>teeTimesFlow\<close> has it after its
  first \<^verbatim>\<open>goto\<close>.
\<close>

definition onLandingPage :: "'w env \<Rightarrow> string option \<Rightarrow> ('w st, string) prog" where
  "onLandingPage E date =
     and_then (locateEntryPoint E linkSelectors None) (\<lambda>teeTimesHref.
       case teeTimesHref of
         None \<Rightarrow> clickFallback E date
       | Some h \<Rightarrow>
           if h = [] then clickFallback E date
           else
             and_then (perform (Goto h) (goto E h)) (\<lambda>_.
             primeDateAndReport E date))"

text \<open>
  How the page's closing ends a run whose inner \<^verbatim>\<open>try\<close> has returned \<open>v\<close> in the
  state \<open>s\<close>: the \<^verbatim>\<open>finally\<close> closes the page, and when \<^verbatim>\<open>page.close()\<close> throws,
  the outer \<^verbatim>\<open>catch\<close> returns its error text in place of \<open>v\<close>.
\<close>

definition closing :: "'w env \<Rightarrow> string \<Rightarrow> 'w st \<Rightarrow> string outcome \<times> 'w st" where
  "closing E v s =
     (case perform PageClose (page_close E) s of
        (Returns u, s') \<Rightarrow> (Returns v, s')
      | (Throws e, s') \<Rightarrow> (Returns (''Unexpected error: '' @ e), s'))"

section \<open>What the log says about pages\<close>

text \<open>A stretch of the log in which no page is opened with \<^verbatim>\<open>newPage\<close> or closed.\<close>

definition page_quiet :: "(call \<times> bool) list \<Rightarrow> bool" where
  "page_quiet tr = list_all (\<lambda>e. fst e \<noteq> PageClose \<and> fst e \<noteq> NewPage) tr"

definition quietly :: "'w st \<Rightarrow> 'w st \<Rightarrow> bool" where
  "quietly s s' = (\<exists>ext. snd s' = snd s @ ext \<and> page_quiet ext)"

section \<open>Fixtures\<close>

text \<open>Elements of a landing page.\<close>

definition home_link :: element where
  "home_link = Element ''A'' (Some ''Home'') ''https://pebblecreek-golf.example/'' None"

definition book_link :: element where
  "book_link =
     Element ''A'' (Some ''Book Tee Times'') ''https://pebblecreek-golf.example/tee-times'' None"

definition reserve_button :: element where
  "reserve_button = Element ''BUTTON'' (Some ''Reserve'') [] None"

definition reserve_button_with_link :: element where
  "reserve_button_with_link =
     Element ''BUTTON'' (Some ''Reserve'') []
       (Some (Element ''A'' (Some ''Reserve'') ''https://pebblecreek-golf.example/reserve'' None))"

definition picker_container :: element where
  "picker_container = Element ''DIV'' (Some []) [] None"

definition date_input :: element where
  "date_input = Element ''INPUT'' (Some []) [] None"

text \<open>
  In \<open>calm\<close> every call returns and changes nothing, the page has no elements and
  tool calls reconcile to themselves; the other environments differ from it in a few
  calls.
\<close>

definition returns_unit :: "'w \<Rightarrow> unit outcome \<times> 'w" where
  "returns_unit w = (Returns (), w)"

definition calm :: "'w env" where
  "calm =
     \<lparr>getStore = (\<lambda>w. True), MYBROWSER = (\<lambda>w. True), encodeURIComponent = (\<lambda>q. q),
      Date_now = (\<lambda>w. 0), new_Date = (\<lambda>w. 0),
      launch = returns_unit, newPage = returns_unit, goto = (\<lambda>u. returns_unit),
      waitForSelector = (\<lambda>sel t v. returns_unit),
      page_content = (\<lambda>w. (Returns [], w)),
      querySelectorAll = (\<lambda>sel w. (Returns [], w)),
      querySelector = (\<lambda>sel w. (Throws ''Error: failed to find element matching selector'', w)),
      click = (\<lambda>el. returns_unit), waitForNavigation = (\<lambda>t. returns_unit),
      setValue = (\<lambda>el v. returns_unit), dispatchEvent = (\<lambda>el n b. returns_unit),
      sleep = (\<lambda>ms w. w), page_url = (\<lambda>w. ''https://pebblecreek-golf.example/''),
      page_close = returns_unit, browser_close = returns_unit,
      schedule = (\<lambda>wh c d. returns_unit), getSchedules = (\<lambda>w. (Returns [], w)),
      cancelSchedule = (\<lambda>i. returns_unit),
      processToolCalls = (\<lambda>ms w. (Returns ms, w)),
      streamText = (\<lambda>sys ms t n. returns_unit), mergeIntoDataStream = returns_unit\<rparr>"

text \<open>
  Pages whose state is the URL they show. On \<open>reserve_page\<close> the only matching
  element is a button without a link inside, and a click leads to the booking page; on
  \<open>plain_page\<close> nothing matches.
\<close>

definition reserve_page :: "string env" where
  "reserve_page =
     calm\<lparr>goto := (\<lambda>u w. (Returns (), u)),
          querySelectorAll := (\<lambda>sel w.
            (Returns (if sel = ''a'' then [home_link]
                      else if sel = ''button'' then [reserve_button]
                      else if sel = ''a,button'' then [home_link, reserve_button]
                      else []), w)),
          waitForNavigation := (\<lambda>t w. (Returns (), ''https://pebblecreek-golf.example/booking'')),
          page_url := (\<lambda>w. w)\<rparr>"


text \<open>
  A booking page on which only \<^verbatim>\<open>.datepicker\<close> (a container) and
  \<^verbatim>\<open>.date-picker\<close> (an input) become visible.
\<close>

definition date_page :: "unit env" where
  "date_page =
     calm\<lparr>waitForSelector := (\<lambda>sel t v w.
            if sel = ''.datepicker'' then (Returns (), w)
            else if sel = ''.date-picker'' then (Returns (), w)
            else (Throws ''TimeoutError: Waiting for selector failed: 3000ms exceeded'', w)),
          querySelector := (\<lambda>sel w.
            if sel = ''.datepicker'' then (Returns picker_container, w)
            else if sel = ''.date-picker'' then (Returns date_input, w)
            else (Throws ''Error: failed to find element matching selector'', w))\<rparr>"

text \<open>A page where every date selector finds the same input, whose value cannot be set.\<close>

definition locked_date_page :: "unit env" where
  "locked_date_page =
     calm\<lparr>querySelector := (\<lambda>sel w. (Returns date_input, w)),
          setValue := (\<lambda>el v w. (Throws ''InvalidStateError: Failed to set the value'', w))\<rparr>"

text \<open>One site that cannot be reached, and a browser whose \<^verbatim>\<open>close\<close> fails.\<close>

definition one_site_down :: "unit env" where
  "one_site_down =
     calm\<lparr>goto := (\<lambda>u w.
            if u = ''https://down.example/'' then (Throws ''Error: net::ERR_NAME_NOT_RESOLVED'', w)
            else (Returns (), w))\<rparr>"

definition failing_close :: "unit env" where
  "failing_close =
     calm\<lparr>browser_close := (\<lambda>w. (Throws ''Error: Protocol error (Browser.close): Target closed'', w))\<rparr>"

text \<open>An agent whose tool calls cannot be reconciled.\<close>

definition failing_reconcile :: "unit env" where
  "failing_reconcile =
     calm\<lparr>processToolCalls := (\<lambda>ms w. (Throws ''Error: tool result missing'', w))\<rparr>"

definition hello :: message where
  "hello = \<lparr>msg_id = ''m1'', msg_role = User, msg_content = ''What is the weather?'', createdAt = 0\<rparr>"

text \<open>
  A search result page whose first result link leads to the course's site, and that
  site: its landing page has a "Book Tee Times" link, and every date selector finds a
  date input.
\<close>

definition search_html :: string where
  "search_html =
     ''<html><body><div><a href='' @ [CHR 0x22] @
     ''/url?q=https://www.pebblecreek-golf.example/&sa=U'' @ [CHR 0x22] @
     ''>Pebble Creek</a></div></body></html>''"

definition pebble_creek :: "string env" where
  "pebble_creek =
     calm\<lparr>goto := (\<lambda>u w. (Returns (), u)),
          page_content := (\<lambda>w. (Returns search_html, w)),
          querySelectorAll := (\<lambda>sel w.
            (Returns (if sel = ''a'' then [home_link, book_link] else []), w)),
          querySelector := (\<lambda>sel w. (Returns date_input, w)),
          page_url := (\<lambda>w. w)\<rparr>"



definition pebble_creek_no_date :: "string env" where
  "pebble_creek_no_date =
     pebble_creek\<lparr>querySelector := (\<lambda>sel w.
       (Throws ''Error: failed to find element matching selector'', w))\<rparr>"


definition pebble_creek_no_date_close_fails :: "string env" where
  "pebble_creek_no_date_close_fails =
     pebble_creek_no_date\<lparr>page_close := (\<lambda>w.
       (Throws ''Error: Protocol error (Target.closeTarget): Target closed'', w))\<rparr>"

text \<open>The log of date selectors that each appear and then find no element.\<close>

fun probes_failed :: "string list \<Rightarrow> (call \<times> bool) list" where
  "probes_failed [] = []"
| "probes_failed (sel # sels) =
     (WaitForSelector sel (Some 3000) True, True) # (QuerySelector sel, False) #
     probes_failed sels"

section \<open>The entry-point matcher\<close>

lemma findEntryPoint_no_match:
  "list_all (\<lambda>el. \<not> text_matches el) elements \<Longrightarrow> findEntryPoint elements = None"
  by (induction elements) (auto simp: text_matches_def)

lemma findEntryPoint_skip:
  "list_all (\<lambda>el. \<not> text_matches el) before \<Longrightarrow>
   findEntryPoint (before @ rest) = findEntryPoint rest"
  by (induction before) (auto simp: text_matches_def)

lemma findEntryPoint_Some:
  "findEntryPoint elements = Some h \<Longrightarrow>
   list_ex (\<lambda>el. text_matches el \<and>
      (h = href el \<or>
       (case querySelector_a el of Some l \<Rightarrow> h = href l | None \<Rightarrow> False))) elements"
  by (induction elements) (auto simp: text_matches_def split: if_splits option.splits)

lemma fixture_texts:
  "\<not> text_matches home_link" "text_matches book_link" "text_matches reserve_button"
  "text_matches reserve_button_with_link"
  by (simp_all add: text_matches_def regex_test_def toLowerCase_def lower_char_def
        home_link_def book_link_def reserve_button_def reserve_button_with_link_def)

lemma fixture_tags:
  "toLowerCase (tagName home_link) = ''a''" "toLowerCase (tagName book_link) = ''a''"
  "toLowerCase (tagName reserve_button) = ''button''"
  "toLowerCase (tagName reserve_button_with_link) = ''button''"
  by (simp_all add: toLowerCase_def lower_char_def
        home_link_def book_link_def reserve_button_def reserve_button_with_link_def)

text \<open>
  Claim C2. The matcher scans the elements in document order and tests each element's
  text against the pattern. When no element matches, it returns null. When the first
  matching element is a link, it returns that link's href, whatever follows. An href it
  returns is never made up: it is the href of a matching element of the sequence, or of
  the link inside one.
\<close>

theorem entry_point_first_match_wins:
  "(list_all (\<lambda>el. \<not> text_matches el) elements \<longrightarrow> findEntryPoint elements = None) \<and>
   (list_all (\<lambda>el. \<not> text_matches el) before \<and> text_matches el \<and>
      toLowerCase (tagName el) = ''a'' \<longrightarrow>
      findEntryPoint (before @ el # after) = Some (href el)) \<and>
   (findEntryPoint elements = Some h \<longrightarrow>
      list_ex (\<lambda>el. text_matches el \<and>
        (h = href el \<or>
         (case querySelector_a el of Some l \<Rightarrow> h = href l | None \<Rightarrow> False))) elements)"
  using findEntryPoint_no_match findEntryPoint_skip findEntryPoint_Some
  by (auto simp: text_matches_def)

theorem entry_point_first_match_wins_witness:
  "findEntryPoint [home_link] = None \<and>
   findEntryPoint ([home_link] @ book_link # [reserve_button]) = Some (href book_link) \<and>
   list_ex (\<lambda>el. text_matches el \<and>
      (href book_link = href el \<or>
       (case querySelector_a el of Some l \<Rightarrow> href book_link = href l | None \<Rightarrow> False)))
     ([home_link] @ book_link # [reserve_button])"
proof -
  have a: "list_all (\<lambda>el. \<not> text_matches el) [home_link]"
    using fixture_texts by simp
  note t = entry_point_first_match_wins
    [of "[home_link]" "[home_link]" book_link "[reserve_button]" "[]"]
  have 1: "findEntryPoint [home_link] = None" using t a by blast
  have 2: "findEntryPoint ([home_link] @ book_link # [reserve_button]) = Some (href book_link)"
    using t a fixture_texts(2) fixture_tags(2) by blast
  note u = entry_point_first_match_wins
    [of "[home_link] @ book_link # [reserve_button]" "[]" book_link "[]" "href book_link"]
  show ?thesis using 1 2 u by blast
qed

text \<open>
  Claim C3, as stated: a matching button without a link inside makes the matcher return
  a "click-only" signal that differs from the null of no match. It does not: the
  callback returns null for such a button, as it does for a page where nothing matches.
\<close>

theorem click_only_signal_counterexample:
  "text_matches reserve_button \<and> toLowerCase (tagName reserve_button) = ''button'' \<and>
   querySelector_a reserve_button = None \<and>
   findEntryPoint [reserve_button] = None \<and> findEntryPoint [home_link] = None"
  using fixture_texts fixture_tags
  by (simp add: reserve_button_def home_link_def text_matches_def)

text \<open>
  Claim C3, amended. When the first matching element is a button, the matcher returns
  the href of the link inside it when there is one, and null otherwise; null is also
  what it returns when nothing matches, and there is no separate signal. The caller
  does not need one: whenever the variable \<^verbatim>\<open>teeTimesHref\<close> ends null or empty,
  \<^verbatim>\<open>findTeeTimes\<close> goes on to the click fallback.
\<close>

theorem button_entry_point:
  "(list_all (\<lambda>el. \<not> text_matches el) before \<and> text_matches el \<and>
      toLowerCase (tagName el) = ''button'' \<longrightarrow>
      findEntryPoint (before @ el # after) =
        (case querySelector_a el of Some linkInside \<Rightarrow> Some (href linkInside) | None \<Rightarrow> None)) \<and>
   (perform (Goto courseUrl) (goto E courseUrl) s = (Returns (), s1) \<and>
      locateEntryPoint E linkSelectors None s1 = (Returns teeTimesHref, s2) \<and>
      \<not> truthy teeTimesHref \<longrightarrow>
      teeTimesFlow E courseUrl date s = clickFallback E date s2)"
proof -
  have "toLowerCase (tagName el) = ''button'' \<Longrightarrow> toLowerCase (tagName el) \<noteq> ''a''"
    by simp
  then have 1: "list_all (\<lambda>el. \<not> text_matches el) before \<and> text_matches el \<and>
      toLowerCase (tagName el) = ''button'' \<longrightarrow>
      findEntryPoint (before @ el # after) =
        (case querySelector_a el of Some linkInside \<Rightarrow> Some (href linkInside) | None \<Rightarrow> None)"
    using findEntryPoint_skip[of before "el # after"] by (auto simp: text_matches_def)
  have 2: "perform (Goto courseUrl) (goto E courseUrl) s = (Returns (), s1) \<and>
      locateEntryPoint E linkSelectors None s1 = (Returns teeTimesHref, s2) \<and>
      \<not> truthy teeTimesHref \<longrightarrow>
      teeTimesFlow E courseUrl date s = clickFallback E date s2"
    by (cases teeTimesHref) (auto simp: teeTimesFlow_def and_then_def)
  show ?thesis using 1 2 by blast
qed

section \<open>Setting the date\<close>

lemmas prog_defs =
  ret_def raise_def and_then_def try_catch_def try_finally_def perform_def in_world_def push_def

lemma setDateLoop_returns: "\<exists>dateSet s'. setDateLoop E d sels s = (Returns dateSet, s')"
  by (induction sels arbitrary: s) (auto split: prod.splits outcome.splits)

lemma setDateLoop_append:
  "setDateLoop E d (xs @ ys) s =
     (case setDateLoop E d xs s of
        (Returns True, s') \<Rightarrow> (Returns True, s')
      | (r, s') \<Rightarrow> setDateLoop E d ys s')"
  by (induction xs arbitrary: s) (auto split: prod.splits outcome.splits bool.splits)

lemma trySelector_True:
  "trySelector E d sel s = (Returns True, s') \<Longrightarrow>
     (\<exists>el. snd s' = snd s @
        [(WaitForSelector sel (Some 3000) True, True), (QuerySelector sel, True),
         (QuerySelector sel, True), (SetValue el d, True),
         (DispatchEvent el ''input'' True, True), (DispatchEvent el ''change'' True, True)]) \<and>
     (\<exists>sa probed sb.
        perform (WaitForSelector sel (Some 3000) True) (waitForSelector E sel (Some 3000) True) s =
          (Returns (), sa) \<and>
        perform (QuerySelector sel) (querySelector E sel) sa = (Returns probed, sb) \<and>
        isInputElement probed)"
  by (auto simp: trySelector_def and_then_def perform_def ret_def
        split: prod.splits outcome.splits if_splits)

lemma setDateLoop_single:
  "setDateLoop E d [sel] s = (Returns True, s') \<Longrightarrow> trySelector E d sel s = (Returns True, s')"
  by (auto split: prod.splits outcome.splits if_splits)

text \<open>
  Claim C4, as stated: once a strategy's selector resolves to an input element, no later
  strategy is tried. On a page where the first selector resolves to an input whose value
  cannot be set, the failed \<^verbatim>\<open>$eval\<close> is caught like a failed wait, and the loop goes
  on through all the later strategies.
\<close>

theorem date_selector_priority_counterexample:
  "waitForSelector locked_date_page (hd dateSelectors) (Some 3000) True () = (Returns (), ()) \<and>
   querySelector locked_date_page (hd dateSelectors) () = (Returns date_input, ()) \<and>
   isInputElement date_input \<and>
   setDateLoop locked_date_page ''2024-06-01'' dateSelectors ((), []) =
     (Returns False,
      ((), concat (map (\<lambda>sel.
             [(WaitForSelector sel (Some 3000) True, True), (QuerySelector sel, True),
              (QuerySelector sel, True), (SetValue date_input ''2024-06-01'', False)])
           dateSelectors)))"
proof -
  have i: "isInputElement date_input"
    by (simp add: isInputElement_def date_input_def toLowerCase_def lower_char_def)
  have t: "\<And>sel tr. trySelector locked_date_page ''2024-06-01'' sel ((), tr) =
      (Throws ''InvalidStateError: Failed to set the value'',
       ((), tr @ [(WaitForSelector sel (Some 3000) True, True), (QuerySelector sel, True),
              (QuerySelector sel, True), (SetValue date_input ''2024-06-01'', False)]))"
    using i by (simp add: trySelector_def locked_date_page_def calm_def returns_unit_def prog_defs)
  show ?thesis
    using i by (simp add: t dateSelectors_def) (simp add: locked_date_page_def calm_def returns_unit_def)
qed

lemma none_resolves_loop:
  "none_resolves E sels s = Some s' \<Longrightarrow> setDateLoop E d sels s = (Returns False, s')"
proof (induction sels arbitrary: s)
  case Nil
  then show ?case by simp
next
  case (Cons sel rest)
  obtain r1 s1 where w: "perform (WaitForSelector sel (Some 3000) True)
      (waitForSelector E sel (Some 3000) True) s = (r1, s1)"
    by (cases "perform (WaitForSelector sel (Some 3000) True)
      (waitForSelector E sel (Some 3000) True) s")
  obtain r2 s2 where q: "perform (QuerySelector sel) (querySelector E sel) s1 = (r2, s2)"
    by (cases "perform (QuerySelector sel) (querySelector E sel) s1")
  show ?case
  proof (cases r1)
    case (Throws e)
    then have "none_resolves E rest s1 = Some s'" using Cons.prems w by simp
    then have "setDateLoop E d rest s1 = (Returns False, s')" by (rule Cons.IH)
    then show ?thesis using w Throws by (simp add: trySelector_def and_then_def)
  next
    case (Returns u)
    show ?thesis
    proof (cases r2)
      case (Throws e)
      then have "none_resolves E rest s2 = Some s'" using Cons.prems w q Returns by simp
      then have "setDateLoop E d rest s2 = (Returns False, s')" by (rule Cons.IH)
      then show ?thesis using w q Returns Throws by (simp add: trySelector_def and_then_def)
    next
      case (Returns el)
      then have n: "\<not> isInputElement el" and "none_resolves E rest s2 = Some s'"
        using Cons.prems w q \<open>r1 = Returns u\<close> by (auto split: if_splits)
      then have "setDateLoop E d rest s2 = (Returns False, s')" using Cons.IH by blast
      then show ?thesis
        using w q n Returns \<open>r1 = Returns u\<close> by (simp add: trySelector_def and_then_def ret_def)
    qed
  qed
qed

text \<open>
  Claim C4, amended. Where strategy k is the first whose selector resolves to an input
  element, and setting that element's value and dispatching the events does not throw,
  the procedure uses strategy k: the log continues with its wait, the look at the tag,
  the setting of the value and the \<^verbatim>\<open>input\<close> and \<^verbatim>\<open>change\<close> events, and the loop
  ends there with the date set, whatever strategies come after k, so none of them is
  tried. When no selector of the list resolves to an input element, the loop ends with
  the date not set. A strategy whose selector resolves to an element that is not an input
  is skipped, and the scan goes on with the next strategy. When the selector resolves to
  an input element and setting its value throws, the error is caught and the scan goes on
  with the next strategy.
\<close>

theorem date_selector_priority:
  "(none_resolves E before s = Some s1 \<and>
    perform (WaitForSelector sel (Some 3000) True)
      (waitForSelector E sel (Some 3000) True) s1 = (Returns (), sa) \<and>
    perform (QuerySelector sel) (querySelector E sel) sa = (Returns probed, sb) \<and>
    isInputElement probed \<and>
    perform (QuerySelector sel) (querySelector E sel) sb = (Returns el, sc) \<and>
    perform (SetValue el d) (setValue E el d) sc = (Returns (), sd) \<and>
    perform (DispatchEvent el ''input'' True) (dispatchEvent E el ''input'' True) sd =
      (Returns (), se) \<and>
    perform (DispatchEvent el ''change'' True) (dispatchEvent E el ''change'' True) se =
      (Returns (), s2) \<longrightarrow>
      setDateLoop E d (before @ sel # after) s = (Returns True, s2) \<and>
      snd s2 = snd s1 @
        [(WaitForSelector sel (Some 3000) True, True), (QuerySelector sel, True),
         (QuerySelector sel, True), (SetValue el d, True),
         (DispatchEvent el ''input'' True, True), (DispatchEvent el ''change'' True, True)]) \<and>
   (none_resolves E sels t = Some t' \<longrightarrow> setDateLoop E d sels t = (Returns False, t')) \<and>
   (perform (WaitForSelector sel (Some 3000) True)
      (waitForSelector E sel (Some 3000) True) t = (Returns (), ta) \<and>
    perform (QuerySelector sel) (querySelector E sel) ta = (Returns other, tb) \<and>
    \<not> isInputElement other \<longrightarrow>
      setDateLoop E d (sel # rest) t = setDateLoop E d rest tb) \<and>
   (perform (WaitForSelector sel (Some 3000) True)
      (waitForSelector E sel (Some 3000) True) t = (Returns (), ta) \<and>
    perform (QuerySelector sel) (querySelector E sel) ta = (Returns probed, tb) \<and>
    isInputElement probed \<and>
    perform (QuerySelector sel) (querySelector E sel) tb = (Returns el, tc) \<and>
    perform (SetValue el d) (setValue E el d) tc = (Throws e, td) \<longrightarrow>
      setDateLoop E d (sel # rest) t = setDateLoop E d rest td)"
proof -
  have 1: "setDateLoop E d (before @ sel # after) s = (Returns True, s2) \<and>
      snd s2 = snd s1 @
        [(WaitForSelector sel (Some 3000) True, True), (QuerySelector sel, True),
         (QuerySelector sel, True), (SetValue el d, True),
         (DispatchEvent el ''input'' True, True), (DispatchEvent el ''change'' True, True)]"
    if b: "none_resolves E before s = Some s1"
      and w: "perform (WaitForSelector sel (Some 3000) True)
        (waitForSelector E sel (Some 3000) True) s1 = (Returns (), sa)"
      and p: "perform (QuerySelector sel) (querySelector E sel) sa = (Returns probed, sb)"
      and i: "isInputElement probed"
      and q: "perform (QuerySelector sel) (querySelector E sel) sb = (Returns el, sc)"
      and v: "perform (SetValue el d) (setValue E el d) sc = (Returns (), sd)"
      and e1: "perform (DispatchEvent el ''input'' True) (dispatchEvent E el ''input'' True) sd =
        (Returns (), se)"
      and e2: "perform (DispatchEvent el ''change'' True) (dispatchEvent E el ''change'' True) se =
        (Returns (), s2)"
  proof -
    have bf: "setDateLoop E d before s = (Returns False, s1)"
      using b by (rule none_resolves_loop)
    have t: "trySelector E d sel s1 = (Returns True, s2)"
      using w p i q v e1 e2 by (simp add: trySelector_def and_then_def ret_def)
    have l: "setDateLoop E d (before @ sel # after) s = (Returns True, s2)"
      using setDateLoop_append[of E d before "sel # after" s] bf t by simp
    have "snd s2 = snd s1 @
        [(WaitForSelector sel (Some 3000) True, True), (QuerySelector sel, True),
         (QuerySelector sel, True), (SetValue el d, True),
         (DispatchEvent el ''input'' True, True), (DispatchEvent el ''change'' True, True)]"
      using w p q v e1 e2 by (auto simp: perform_def split: prod.splits)
    then show ?thesis using l by blast
  qed
  have 2: "none_resolves E sels t = Some t' \<longrightarrow> setDateLoop E d sels t = (Returns False, t')"
    using none_resolves_loop by blast
  have 3: "perform (WaitForSelector sel (Some 3000) True)
      (waitForSelector E sel (Some 3000) True) t = (Returns (), ta) \<and>
    perform (QuerySelector sel) (querySelector E sel) ta = (Returns other, tb) \<and>
    \<not> isInputElement other \<longrightarrow>
      setDateLoop E d (sel # rest) t = setDateLoop E d rest tb"
    by (simp add: trySelector_def and_then_def ret_def)
  have 4: "perform (WaitForSelector sel (Some 3000) True)
      (waitForSelector E sel (Some 3000) True) t = (Returns (), ta) \<and>
    perform (QuerySelector sel) (querySelector E sel) ta = (Returns probed, tb) \<and>
    isInputElement probed \<and>
    perform (QuerySelector sel) (querySelector E sel) tb = (Returns el, tc) \<and>
    perform (SetValue el d) (setValue E el d) tc = (Throws e, td) \<longrightarrow>
      setDateLoop E d (sel # rest) t = setDateLoop E d rest td"
    by (simp add: trySelector_def and_then_def ret_def)
  show ?thesis using 1 2 3 4 by blast
qed

lemma date_fixture_tags:
  "\<not> isInputElement picker_container" "isInputElement date_input"
  by (simp_all add: isInputElement_def picker_container_def date_input_def
        toLowerCase_def lower_char_def)

lemma date_page_try:
  "sel \<noteq> ''.datepicker'' \<Longrightarrow> sel \<noteq> ''.date-picker'' \<Longrightarrow>
   trySelector date_page d sel ((), tr) =
     (Throws ''TimeoutError: Waiting for selector failed: 3000ms exceeded'',
      ((), tr @ [(WaitForSelector sel (Some 3000) True, False)]))"
  "trySelector date_page d ''.datepicker'' ((), tr) =
     (Returns False,
      ((), tr @ [(WaitForSelector ''.datepicker'' (Some 3000) True, True),
                 (QuerySelector ''.datepicker'', True)]))"
  "trySelector date_page d ''.date-picker'' ((), tr) =
     (Returns True,
      ((), tr @ [(WaitForSelector ''.date-picker'' (Some 3000) True, True),
                 (QuerySelector ''.date-picker'', True), (QuerySelector ''.date-picker'', True),
                 (SetValue date_input d, True), (DispatchEvent date_input ''input'' True, True),
                 (DispatchEvent date_input ''change'' True, True)]))"
  using date_fixture_tags
  by (simp_all add: trySelector_def date_page_def calm_def returns_unit_def prog_defs)

lemma date_page_calls:
  "sel \<noteq> ''.datepicker'' \<Longrightarrow> sel \<noteq> ''.date-picker'' \<Longrightarrow>
   perform (WaitForSelector sel (Some 3000) True) (waitForSelector date_page sel (Some 3000) True)
     ((), tr) =
     (Throws ''TimeoutError: Waiting for selector failed: 3000ms exceeded'',
      ((), tr @ [(WaitForSelector sel (Some 3000) True, False)]))"
  "perform (WaitForSelector ''.datepicker'' (Some 3000) True)
     (waitForSelector date_page ''.datepicker'' (Some 3000) True) ((), tr) =
     (Returns (), ((), tr @ [(WaitForSelector ''.datepicker'' (Some 3000) True, True)]))"
  "perform (WaitForSelector ''.date-picker'' (Some 3000) True)
     (waitForSelector date_page ''.date-picker'' (Some 3000) True) ((), tr) =
     (Returns (), ((), tr @ [(WaitForSelector ''.date-picker'' (Some 3000) True, True)]))"
  "perform (QuerySelector ''.datepicker'') (querySelector date_page ''.datepicker'') ((), tr) =
     (Returns picker_container, ((), tr @ [(QuerySelector ''.datepicker'', True)]))"
  "perform (QuerySelector ''.date-picker'') (querySelector date_page ''.date-picker'') ((), tr) =
     (Returns date_input, ((), tr @ [(QuerySelector ''.date-picker'', True)]))"
  "perform (SetValue el d) (setValue date_page el d) ((), tr) =
     (Returns (), ((), tr @ [(SetValue el d, True)]))"
  "perform (DispatchEvent el n b) (dispatchEvent date_page el n b) ((), tr) =
     (Returns (), ((), tr @ [(DispatchEvent el n b, True)]))"
  by (simp_all add: perform_def date_page_def calm_def returns_unit_def)

lemma locked_date_page_calls:
  "perform (WaitForSelector sel t v) (waitForSelector locked_date_page sel t v) ((), tr) =
     (Returns (), ((), tr @ [(WaitForSelector sel t v, True)]))"
  "perform (QuerySelector sel) (querySelector locked_date_page sel) ((), tr) =
     (Returns date_input, ((), tr @ [(QuerySelector sel, True)]))"
  "perform (SetValue el d) (setValue locked_date_page el d) ((), tr) =
     (Throws ''InvalidStateError: Failed to set the value'', ((), tr @ [(SetValue el d, False)]))"
  by (simp_all add: perform_def locked_date_page_def calm_def returns_unit_def)

theorem date_selector_priority_witness:
  "setDateLoop date_page ''2024-06-01'' dateSelectors ((), []) =
     (Returns True,
      ((), map (\<lambda>sel. (WaitForSelector sel (Some 3000) True, False)) (take 3 dateSelectors) @
           [(WaitForSelector ''.datepicker'' (Some 3000) True, True),
            (QuerySelector ''.datepicker'', True),
            (WaitForSelector ''.date-picker'' (Some 3000) True, True),
            (QuerySelector ''.date-picker'', True), (QuerySelector ''.date-picker'', True),
            (SetValue date_input ''2024-06-01'', True),
            (DispatchEvent date_input ''input'' True, True),
            (DispatchEvent date_input ''change'' True, True)])) \<and>
   setDateLoop date_page ''2024-06-01'' (take 4 dateSelectors) ((), []) =
     (Returns False,
      ((), map (\<lambda>sel. (WaitForSelector sel (Some 3000) True, False)) (take 3 dateSelectors) @
           [(WaitForSelector ''.datepicker'' (Some 3000) True, True),
            (QuerySelector ''.datepicker'', True)])) \<and>
   setDateLoop date_page ''2024-06-01'' [''.datepicker'', ''.date-picker''] ((), []) =
     setDateLoop date_page ''2024-06-01'' [''.date-picker'']
       ((), [(WaitForSelector ''.datepicker'' (Some 3000) True, True),
             (QuerySelector ''.datepicker'', True)]) \<and>
   setDateLoop locked_date_page ''2024-06-01'' [hd dateSelectors, ''.date-picker''] ((), []) =
     setDateLoop locked_date_page ''2024-06-01'' [''.date-picker'']
       ((), [(WaitForSelector (hd dateSelectors) (Some 3000) True, True),
             (QuerySelector (hd dateSelectors), True), (QuerySelector (hd dateSelectors), True),
             (SetValue date_input ''2024-06-01'', False)])"
proof -
  let ?d = "''2024-06-01''"
  let ?p = "''.date-picker''"
  let ?c = "''.datepicker''"
  let ?t1 = "map (\<lambda>sel. (WaitForSelector sel (Some 3000) True, False)) (take 3 dateSelectors) @
           [(WaitForSelector ?c (Some 3000) True, True), (QuerySelector ?c, True)]"
  have split: "dateSelectors = take 4 dateSelectors @ ?p # drop 5 dateSelectors"
    by (simp add: dateSelectors_def)
  have before: "none_resolves date_page (take 4 dateSelectors) ((), []) = Some ((), ?t1)"
    using date_fixture_tags(1) by (simp add: dateSelectors_def date_page_calls)
  note chain =
    date_page_calls(3)[of ?t1]
    date_page_calls(5)[of "?t1 @ [(WaitForSelector ?p (Some 3000) True, True)]"]
    date_page_calls(5)[of "?t1 @ [(WaitForSelector ?p (Some 3000) True, True),
                                  (QuerySelector ?p, True)]"]
    date_page_calls(6)[of date_input ?d
      "?t1 @ [(WaitForSelector ?p (Some 3000) True, True), (QuerySelector ?p, True),
              (QuerySelector ?p, True)]"]
    date_page_calls(7)[of date_input "''input''" True
      "?t1 @ [(WaitForSelector ?p (Some 3000) True, True), (QuerySelector ?p, True),
              (QuerySelector ?p, True), (SetValue date_input ?d, True)]"]
    date_page_calls(7)[of date_input "''change''" True
      "?t1 @ [(WaitForSelector ?p (Some 3000) True, True), (QuerySelector ?p, True),
              (QuerySelector ?p, True), (SetValue date_input ?d, True),
              (DispatchEvent date_input ''input'' True, True)]"]
  have a: "setDateLoop date_page ?d (take 4 dateSelectors @ ?p # drop 5 dateSelectors) ((), []) =
      (Returns True,
       ((), ?t1 @ [(WaitForSelector ?p (Some 3000) True, True), (QuerySelector ?p, True),
              (QuerySelector ?p, True), (SetValue date_input ?d, True),
              (DispatchEvent date_input ''input'' True, True),
              (DispatchEvent date_input ''change'' True, True)]))"
    using date_selector_priority
      [where E = date_page and d = ?d and before = "take 4 dateSelectors" and s = "((), [])"
         and ?s1.0 = "((), ?t1)" and sel = ?p and probed = date_input and el = date_input
         and after = "drop 5 dateSelectors"]
      before chain date_fixture_tags(2)
    by simp
  have b: "setDateLoop date_page ?d (take 4 dateSelectors) ((), []) = (Returns False, ((), ?t1))"
    using date_selector_priority
      [where E = date_page and d = ?d and sels = "take 4 dateSelectors" and t = "((), [])"
         and t' = "((), ?t1)"]
      before by blast
  have c: "setDateLoop date_page ?d [?c, ?p] ((), []) =
     setDateLoop date_page ?d [?p]
       ((), [(WaitForSelector ?c (Some 3000) True, True), (QuerySelector ?c, True)])"
    using date_selector_priority
      [where E = date_page and d = ?d and sel = ?c and t = "((), [])"
         and ta = "((), [(WaitForSelector ?c (Some 3000) True, True)])"
         and other = picker_container
         and tb = "((), [(WaitForSelector ?c (Some 3000) True, True), (QuerySelector ?c, True)])"
         and rest = "[?p]"]
      date_page_calls(2)[of "[]"]
      date_page_calls(4)[of "[(WaitForSelector ?c (Some 3000) True, True)]"]
      date_fixture_tags(1)
    by simp
  let ?h = "hd dateSelectors"
  have e: "setDateLoop locked_date_page ?d [?h, ?p] ((), []) =
     setDateLoop locked_date_page ?d [?p]
       ((), [(WaitForSelector ?h (Some 3000) True, True),
             (QuerySelector ?h, True), (QuerySelector ?h, True),
             (SetValue date_input ?d, False)])"
    using date_selector_priority
      [where E = locked_date_page and d = ?d and sel = ?h and t = "((), [])"
         and ta = "((), [(WaitForSelector ?h (Some 3000) True, True)])"
         and probed = date_input
         and tb = "((), [(WaitForSelector ?h (Some 3000) True, True), (QuerySelector ?h, True)])"
         and el = date_input
         and tc = "((), [(WaitForSelector ?h (Some 3000) True, True), (QuerySelector ?h, True),
                         (QuerySelector ?h, True)])"
         and e = "''InvalidStateError: Failed to set the value''"
         and td = "((), [(WaitForSelector ?h (Some 3000) True, True), (QuerySelector ?h, True),
                         (QuerySelector ?h, True), (SetValue date_input ?d, False)])"
         and rest = "[?p]"]
      locked_date_page_calls(1)[of ?h "Some 3000" True "[]"]
      locked_date_page_calls(2)[of ?h "[(WaitForSelector ?h (Some 3000) True, True)]"]
      locked_date_page_calls(2)[of ?h "[(WaitForSelector ?h (Some 3000) True, True),
                                        (QuerySelector ?h, True)]"]
      locked_date_page_calls(3)[of date_input ?d
        "[(WaitForSelector ?h (Some 3000) True, True), (QuerySelector ?h, True),
          (QuerySelector ?h, True)]"]
      date_fixture_tags(2)
    by simp
  show ?thesis using a b c e split by simp
qed

section \<open>The log only grows, and only \<^verbatim>\<open>findTeeTimes\<close> itself opens and closes its page\<close>

lemma quietly_refl: "quietly s s"
  by (simp add: quietly_def page_quiet_def)

lemma quietly_trans: "quietly s s1 \<Longrightarrow> quietly s1 s2 \<Longrightarrow> quietly s s2"
  by (auto simp: quietly_def page_quiet_def)

lemma quietly_perform:
  "perform c f s = (r, s') \<Longrightarrow> c \<noteq> PageClose \<Longrightarrow> c \<noteq> NewPage \<Longrightarrow> quietly s s'"
  by (auto simp: quietly_def page_quiet_def perform_def split: prod.splits)

lemma and_then_cases:
  "and_then m k s = (r, s') \<Longrightarrow>
     (\<exists>x s1. m s = (Returns x, s1) \<and> k x s1 = (r, s')) \<or>
     (\<exists>e. m s = (Throws e, s') \<and> r = Throws e)"
  by (auto simp: and_then_def split: prod.splits outcome.splits)

lemma try_catch_cases:
  "try_catch m h s = (r, s') \<Longrightarrow>
     (\<exists>x. m s = (Returns x, s') \<and> r = Returns x) \<or>
     (\<exists>e s1. m s = (Throws e, s1) \<and> h e s1 = (r, s'))"
  by (auto simp: try_catch_def split: prod.splits outcome.splits)

lemma quietly_and_then:
  assumes "and_then m k s = (r, s')"
    and "\<And>r1 s1. m s = (r1, s1) \<Longrightarrow> quietly s s1"
    and "\<And>x s1 r2 s2. k x s1 = (r2, s2) \<Longrightarrow> quietly s1 s2"
  shows "quietly s s'"
  using and_then_cases[OF assms(1)] assms(2,3) quietly_trans by blast

lemma quietly_try_catch:
  assumes "try_catch m h s = (r, s')"
    and "\<And>r1 s1. m s = (r1, s1) \<Longrightarrow> quietly s s1"
    and "\<And>x s1 r2 s2. h x s1 = (r2, s2) \<Longrightarrow> quietly s1 s2"
  shows "quietly s s'"
  using try_catch_cases[OF assms(1)] assms(2,3) quietly_trans by blast

lemma quietly_ret: "ret x s = (r, s') \<Longrightarrow> quietly s s'"
  by (auto simp: ret_def quietly_refl)

lemma quietly_locate: "locateEntryPoint E sels h s = (r, s') \<Longrightarrow> quietly s s'"
proof (induction sels arbitrary: h s)
  case Nil
  then show ?case by (auto simp: quietly_refl)
next
  case (Cons sel rest)
  obtain r1 s1 where w: "perform (WaitForSelector sel (Some 5000) True)
      (waitForSelector E sel (Some 5000) True) s = (r1, s1)"
    by (cases "perform (WaitForSelector sel (Some 5000) True)
      (waitForSelector E sel (Some 5000) True) s")
  have q1: "quietly s s1" using quietly_perform[OF w] by simp
  obtain r2 s2 where q: "perform (QuerySelectorAll sel) (querySelectorAll E sel) s1 = (r2, s2)"
    by (cases "perform (QuerySelectorAll sel) (querySelectorAll E sel) s1")
  have q2: "quietly s1 s2" using quietly_perform[OF q] by simp
  show ?case
  proof (cases r1)
    case (Throws e)
    then have "locateEntryPoint E rest h s1 = (r, s')" using Cons.prems w by simp
    then show ?thesis using Cons.IH q1 quietly_trans by blast
  next
    case (Returns u)
    show ?thesis
    proof (cases r2)
      case (Throws e)
      then have "s' = s2" using Cons.prems w q Returns by simp
      then show ?thesis using q1 q2 quietly_trans by blast
    next
      case (Returns elements)
      show ?thesis
      proof (cases "truthy (findEntryPoint elements)")
        case True
        then have "s' = s2" using Cons.prems w q Returns \<open>r1 = Returns u\<close> by simp
        then show ?thesis using q1 q2 quietly_trans by blast
      next
        case False
        then have "locateEntryPoint E rest (findEntryPoint elements) s2 = (r, s')"
          using Cons.prems w q Returns \<open>r1 = Returns u\<close> by simp
        then show ?thesis using Cons.IH q1 q2 quietly_trans by blast
      qed
    qed
  qed
qed

lemma quietly_clickMatching: "clickMatching E s = (r, s') \<Longrightarrow> quietly s s'"
  unfolding clickMatching_def
  by (erule quietly_and_then)
     (auto elim!: quietly_and_then intro: quietly_perform quietly_ret split: option.splits)

lemma quietly_trySelector: "trySelector E d sel s = (r, s') \<Longrightarrow> quietly s s'"
  unfolding trySelector_def
  by (erule quietly_and_then)
     (auto elim!: quietly_and_then intro: quietly_perform quietly_ret split: if_splits)

lemma quietly_setDateLoop: "setDateLoop E d sels s = (r, s') \<Longrightarrow> quietly s s'"
proof (induction sels arbitrary: s)
  case Nil
  then show ?case by (auto simp: quietly_refl)
next
  case (Cons sel rest)
  obtain r1 s1 where t: "trySelector E d sel s = (r1, s1)"
    by (cases "trySelector E d sel s")
  have q1: "quietly s s1" using quietly_trySelector[OF t] .
  show ?case
  proof (cases "r1 = Returns True")
    case True
    then show ?thesis using Cons.prems t q1 by simp
  next
    case False
    then have "setDateLoop E d rest s1 = (r, s')"
      using Cons.prems t by (auto split: outcome.splits if_splits)
    then show ?thesis using Cons.IH q1 quietly_trans by blast
  qed
qed

lemma quietly_primeDateAndReport: "primeDateAndReport E date s = (r, s') \<Longrightarrow> quietly s s'"
  unfolding primeDateAndReport_def primeDate_def
  by (erule quietly_and_then)
     (auto elim!: quietly_and_then
           intro: quietly_perform quietly_ret quietly_setDateLoop quietly_refl
           split: option.splits if_splits)

lemma quietly_clickFallback: "clickFallback E date s = (r, s') \<Longrightarrow> quietly s s'"
  unfolding clickFallback_def
  by (erule quietly_and_then)
     (auto elim!: quietly_and_then
           intro: quietly_perform quietly_ret quietly_clickMatching quietly_primeDateAndReport
           split: if_splits)

lemma quietly_teeTimesFlow: "teeTimesFlow E u date s = (r, s') \<Longrightarrow> quietly s s'"
  unfolding teeTimesFlow_def
  by (erule quietly_and_then)
     (auto elim!: quietly_and_then
           intro: quietly_perform quietly_ret quietly_locate quietly_clickFallback
                  quietly_primeDateAndReport
           split: option.splits if_splits)

text \<open>
  The page that \<^verbatim>\<open>findTeeTimes\<close> opens is closed exactly once on every path: when
  \<^verbatim>\<open>newPage\<close> throws, nothing was opened and nothing is closed; otherwise the log
  continues with calls that neither open nor close a page and ends with the one call of
  \<^verbatim>\<open>page.close()\<close>, whether the flow returned, returned early or threw.
\<close>

lemma page_closed_exactly_once:
  "\<exists>mid ok.
     page_quiet mid \<and>
     (snd (snd (findTeeTimesOnPage E u date s)) = snd s @ [(NewPage, False)] \<or>
      snd (snd (findTeeTimesOnPage E u date s)) =
        snd s @ [(NewPage, True)] @ mid @ [(PageClose, ok)])"
proof -
  obtain r1 s1 where n: "perform NewPage (newPage E) s = (r1, s1)"
    by (cases "perform NewPage (newPage E) s")
  have t1: "snd s1 = snd s @ [(NewPage, is_Returns r1)]"
    using n by (auto simp: perform_def split: prod.splits)
  show ?thesis
  proof (cases r1)
    case (Throws e)
    then have "snd (snd (findTeeTimesOnPage E u date s)) = snd s @ [(NewPage, False)]"
      using n t1 by (simp add: findTeeTimesOnPage_def)
    moreover have "page_quiet []" by (simp add: page_quiet_def)
    ultimately show ?thesis by blast
  next
    case (Returns x)
    obtain r2 s2 where b: "try_catch (teeTimesFlow E u date)
        (\<lambda>error. ret (''Error finding tee times: '' @ error)) s1 = (r2, s2)"
      by (cases "try_catch (teeTimesFlow E u date)
        (\<lambda>error. ret (''Error finding tee times: '' @ error)) s1")
    have "quietly s1 s2"
      using b by (rule quietly_try_catch) (auto intro: quietly_teeTimesFlow quietly_ret)
    then obtain mid where mid: "snd s2 = snd s1 @ mid" "page_quiet mid"
      by (auto simp: quietly_def)
    obtain r3 s3 where c: "perform PageClose (page_close E) s2 = (r3, s3)"
      by (cases "perform PageClose (page_close E) s2")
    have t3: "snd s3 = snd s2 @ [(PageClose, is_Returns r3)]"
      using c by (auto simp: perform_def split: prod.splits)
    have "snd (snd (findTeeTimesOnPage E u date s)) = snd s3"
      using n Returns b c
      by (auto simp: findTeeTimesOnPage_def try_finally_def split: outcome.splits)
    then show ?thesis using t1 t3 mid Returns by auto
  qed
qed

section \<open>The click fallback\<close>

lemma firstMatch_None:
  "list_all (\<lambda>el. \<not> text_matches el) elements \<Longrightarrow> firstMatch elements = None"
  by (induction elements) (auto simp: text_matches_def)


lemma locate_no_match:
  assumes "\<forall>sel w. \<exists>els w'. querySelectorAll E sel w = (Returns els, w') \<and>
             list_all (\<lambda>el. \<not> text_matches el) els"
  shows "\<exists>s'. locateEntryPoint E sels None s = (Returns None, s')"
proof (induction sels arbitrary: s)
  case Nil
  show ?case by simp
next
  case (Cons sel rest)
  obtain r1 s1 where w: "perform (WaitForSelector sel (Some 5000) True)
      (waitForSelector E sel (Some 5000) True) s = (r1, s1)"
    by (cases "perform (WaitForSelector sel (Some 5000) True)
      (waitForSelector E sel (Some 5000) True) s")
  obtain els w' where q: "querySelectorAll E sel (fst s1) = (Returns els, w')"
    "list_all (\<lambda>el. \<not> text_matches el) els"
    using assms by blast
  have f: "findEntryPoint els = None" using q(2) by (rule findEntryPoint_no_match)
  show ?case
  proof (cases r1)
    case (Throws e)
    then show ?thesis using w Cons.IH by simp
  next
    case (Returns u)
    then show ?thesis using w q(1) f Cons.IH by (simp add: perform_def)
  qed
qed

lemma click_no_match:
  assumes "\<forall>sel w. \<exists>els w'. querySelectorAll E sel w = (Returns els, w') \<and>
             list_all (\<lambda>el. \<not> text_matches el) els"
  shows "\<exists>s'. clickFallback E date s =
           (Returns ''No tee times link or button found on the landing page.'', s')"
proof -
  obtain els w' where q: "querySelectorAll E ''a,button'' (fst s) = (Returns els, w')"
    "list_all (\<lambda>el. \<not> text_matches el) els"
    using assms by blast
  have "firstMatch els = None" using q(2) by (rule firstMatch_None)
  then show ?thesis
    using q(1) by (simp add: clickFallback_def clickMatching_def prog_defs)
qed


lemma fixture_matcher:
  "findEntryPoint [home_link] = None"
  "findEntryPoint [reserve_button] = None"
  "firstMatch [home_link, reserve_button] = Some reserve_button"
  using fixture_texts fixture_tags
  by (simp_all add: text_matches_def home_link_def reserve_button_def)

lemma reserve_page_calls:
  "perform (Goto u) (goto reserve_page u) (w, tr) = (Returns (), (u, tr @ [(Goto u, True)]))"
  "perform (WaitForSelector sel t v) (waitForSelector reserve_page sel t v) (w, tr) =
     (Returns (), (w, tr @ [(WaitForSelector sel t v, True)]))"
  "perform (QuerySelectorAll ''a'') (querySelectorAll reserve_page ''a'') (w, tr) =
     (Returns [home_link], (w, tr @ [(QuerySelectorAll ''a'', True)]))"
  "perform (QuerySelectorAll ''button'') (querySelectorAll reserve_page ''button'') (w, tr) =
     (Returns [reserve_button], (w, tr @ [(QuerySelectorAll ''button'', True)]))"
  "perform (QuerySelectorAll ''a,button'') (querySelectorAll reserve_page ''a,button'') (w, tr) =
     (Returns [home_link, reserve_button], (w, tr @ [(QuerySelectorAll ''a,button'', True)]))"
  "perform (Click el) (click reserve_page el) (w, tr) = (Returns (), (w, tr @ [(Click el, True)]))"
  "perform (WaitForNavigation n) (waitForNavigation reserve_page n) (w, tr) =
     (Returns (), (''https://pebblecreek-golf.example/booking'', tr @ [(WaitForNavigation n, True)]))"
  by (simp_all add: perform_def reserve_page_def calm_def returns_unit_def)

theorem button_entry_point_witness:
  "findEntryPoint ([home_link] @ reserve_button_with_link # [book_link]) =
     Some ''https://pebblecreek-golf.example/reserve'' \<and>
   findEntryPoint ([home_link] @ reserve_button # [book_link]) = None \<and>
   teeTimesFlow reserve_page ''https://pebblecreek-golf.example/'' None (''about:blank'', []) =
     clickFallback reserve_page None
       (''https://pebblecreek-golf.example/'',
        [(Goto ''https://pebblecreek-golf.example/'', True),
         (WaitForSelector ''a'' (Some 5000) True, True), (QuerySelectorAll ''a'', True),
         (WaitForSelector ''button'' (Some 5000) True, True),
         (QuerySelectorAll ''button'', True)])"
proof -
  let ?u = "''https://pebblecreek-golf.example/''"
  let ?s1 = "(?u, [(Goto ?u, True)])"
  let ?s2 = "(?u, [(Goto ?u, True),
         (WaitForSelector ''a'' (Some 5000) True, True), (QuerySelectorAll ''a'', True),
         (WaitForSelector ''button'' (Some 5000) True, True),
         (QuerySelectorAll ''button'', True)])"
  have b: "list_all (\<lambda>el. \<not> text_matches el) [home_link]"
    using fixture_texts by simp
  have "findEntryPoint ([home_link] @ reserve_button_with_link # [book_link]) =
     (case querySelector_a reserve_button_with_link of
        Some linkInside \<Rightarrow> Some (href linkInside) | None \<Rightarrow> None)"
    using button_entry_point
      [of "[home_link]" reserve_button_with_link "[book_link]"]
      b fixture_texts(4) fixture_tags(4)
    by blast
  then have 1: "findEntryPoint ([home_link] @ reserve_button_with_link # [book_link]) =
     Some ''https://pebblecreek-golf.example/reserve''"
    by (simp add: reserve_button_with_link_def)
  have "findEntryPoint ([home_link] @ reserve_button # [book_link]) =
     (case querySelector_a reserve_button of
        Some linkInside \<Rightarrow> Some (href linkInside) | None \<Rightarrow> None)"
    using button_entry_point [of "[home_link]" reserve_button "[book_link]"]
      b fixture_texts(3) fixture_tags(3)
    by blast
  then have 2: "findEntryPoint ([home_link] @ reserve_button # [book_link]) = None"
    by (simp add: reserve_button_def)
  have g: "perform (Goto ?u) (goto reserve_page ?u) (''about:blank'', []) = (Returns (), ?s1)"
    by (simp add: reserve_page_calls)
  have l: "locateEntryPoint reserve_page linkSelectors None ?s1 = (Returns None, ?s2)"
    by (simp add: linkSelectors_def reserve_page_calls fixture_matcher del: findEntryPoint.simps)
  have 3: "teeTimesFlow reserve_page ?u None (''about:blank'', []) =
     clickFallback reserve_page None ?s2"
    using button_entry_point
      [of "[]" reserve_button "[]" ?u reserve_page "(''about:blank'', [])" ?s1 None ?s2 None]
      g l by simp
  show ?thesis using 1 2 3 by blast
qed

section \<open>From the search to the page's closing\<close>

lemma search_html_course:
  "extractCourseUrl search_html = Some ''https://www.pebblecreek-golf.example/''"
  "search_html \<noteq> []"
  by (simp_all add: search_html_def match_here_def)

lemma landing_page_entry:
  "findEntryPoint [home_link, book_link] = Some ''https://pebblecreek-golf.example/tee-times''"
  using fixture_texts fixture_tags by (simp add: text_matches_def home_link_def book_link_def)

lemma pebble_creek_calls:
  "getStore pebble_creek = (\<lambda>w. True)" "MYBROWSER pebble_creek = (\<lambda>w. True)"
  "encodeURIComponent pebble_creek = (\<lambda>q. q)"
  "launch pebble_creek = returns_unit" "newPage pebble_creek = returns_unit"
  "goto pebble_creek = (\<lambda>u w. (Returns (), u))"
  "waitForSelector pebble_creek = (\<lambda>sel t v. returns_unit)"
  "page_content pebble_creek = (\<lambda>w. (Returns search_html, w))"
  "querySelectorAll pebble_creek ''a'' = (\<lambda>w. (Returns [home_link, book_link], w))"
  "querySelector pebble_creek = (\<lambda>sel w. (Returns date_input, w))"
  "setValue pebble_creek = (\<lambda>el v. returns_unit)"
  "dispatchEvent pebble_creek = (\<lambda>el n b. returns_unit)"
  "sleep pebble_creek = (\<lambda>ms w. w)"
  "page_url pebble_creek = (\<lambda>w. w)"
  "page_close pebble_creek = returns_unit" "browser_close pebble_creek = returns_unit"
  by (simp_all add: pebble_creek_def calm_def)

lemma match_here_nonempty: "match_here s = Some u \<Longrightarrow> u \<noteq> []"
  by (auto simp: match_here_def Let_def split: option.splits if_splits prod.splits)

lemma extractCourseUrl_nonempty: "extractCourseUrl html = Some u \<Longrightarrow> u \<noteq> [] \<and> html \<noteq> []"
proof (induction html)
  case Nil
  then show ?case by (simp add: match_here_def)
next
  case (Cons c cs)
  then show ?case using match_here_nonempty by (auto split: option.splits)
qed

lemma browse_search:
  assumes "perform Launch (launch E) s = (Returns (), sa)"
    and "perform NewPage (newPage E) sa = (Returns (), sb)"
    and "perform (Goto u) (goto E u) sb = (Returns (), sc)"
    and "perform (WaitForSelector ''body'' None False) (waitForSelector E ''body'' None False) sc =
          (Returns (), sd)"
    and "perform PageContent (page_content E) sd = (Returns html, se)"
    and "perform BrowserClose (browser_close E) se = (r, s1)"
  shows "\<exists>others. browse E [u] True s = (Returns (Str html # others), s1)"
  using assms
  by (cases r)
     (simp_all add: browse_def browse_url_def browse_try_def and_then_def try_catch_def
        in_world_def push_def ret_def)

lemma landing_page_run:
  assumes "landing_page_reached E courseName s courseUrl s3"
  shows "\<exists>s1 s2.
     findTeeTimes E courseName date s =
       try_catch (findTeeTimesOnPage E courseUrl date)
         (\<lambda>error. ret (''Unexpected error: '' @ error)) s1 \<and>
     perform NewPage (newPage E) s1 = (Returns (), s2) \<and>
     perform (Goto courseUrl) (goto E courseUrl) s2 = (Returns (), s3)"
proof -
  from assms obtain html sa sb sc sd se r s1 s2 where
    g: "getStore E (fst s)" "MYBROWSER E (fst s)" and
    l: "perform Launch (launch E) s = (Returns (), sa)" and
    n: "perform NewPage (newPage E) sa = (Returns (), sb)" and
    go: "perform (Goto (googleSearchUrl E courseName)) (goto E (googleSearchUrl E courseName)) sb =
          (Returns (), sc)" and
    w: "perform (WaitForSelector ''body'' None False) (waitForSelector E ''body'' None False) sc =
          (Returns (), sd)" and
    c: "perform PageContent (page_content E) sd = (Returns html, se)" and
    b: "perform BrowserClose (browser_close E) se = (r, s1)" and
    x: "extractCourseUrl html = Some courseUrl" and m: "MYBROWSER E (fst s1)" and
    n2: "perform NewPage (newPage E) s1 = (Returns (), s2)" and
    g2: "perform (Goto courseUrl) (goto E courseUrl) s2 = (Returns (), s3)"
    unfolding landing_page_reached_def by blast
  obtain others where br:
    "browse E [googleSearchUrl E courseName] True s = (Returns (Str html # others), s1)"
    using browse_search[OF l n go w c b] by blast
  have ne: "courseUrl \<noteq> []" "html \<noteq> []"
    using extractCourseUrl_nonempty[OF x] by simp_all
  have "findTeeTimes E courseName date s =
       try_catch (findTeeTimesOnPage E courseUrl date)
         (\<lambda>error. ret (''Unexpected error: '' @ error)) s1"
    using g br x ne m
    by (simp add: findTeeTimes_def try_catch_def and_then_def ret_def
          del: extractCourseUrl.simps)
  then show ?thesis using n2 g2 by blast
qed

lemma teeTimesFlow_landing:
  "perform (Goto courseUrl) (goto E courseUrl) s2 = (Returns (), s3) \<Longrightarrow>
   teeTimesFlow E courseUrl date s2 = onLandingPage E date s3"
  by (simp add: teeTimesFlow_def onLandingPage_def and_then_def)

lemma run_returns:
  assumes "landing_page_reached E courseName s courseUrl s3"
    and "onLandingPage E date s3 = (Returns v, s7)"
  shows "findTeeTimes E courseName date s = closing E v s7"
proof -
  obtain s1 s2 where
    f: "findTeeTimes E courseName date s =
       try_catch (findTeeTimesOnPage E courseUrl date)
         (\<lambda>error. ret (''Unexpected error: '' @ error)) s1" and
    n: "perform NewPage (newPage E) s1 = (Returns (), s2)" and
    g: "perform (Goto courseUrl) (goto E courseUrl) s2 = (Returns (), s3)"
    using landing_page_run[OF assms(1)] by blast
  have t: "teeTimesFlow E courseUrl date s2 = (Returns v, s7)"
    using teeTimesFlow_landing[OF g] assms(2) by simp
  show ?thesis
    using f n t
    by (auto simp: findTeeTimesOnPage_def try_finally_def try_catch_def ret_def closing_def
          split: prod.splits outcome.splits)
qed



lemma scanned_locate:
  "scanned E no_usable_href sels s = Some s' \<Longrightarrow> \<not> truthy h \<Longrightarrow>
   \<exists>h'. \<not> truthy h' \<and>
     locateEntryPoint E (sels @ rest) h s = locateEntryPoint E rest h' s'"
proof (induction sels arbitrary: s h)
  case Nil
  then show ?case by auto
next
  case (Cons sel sels)
  obtain r1 s1 where w: "perform (WaitForSelector sel (Some 5000) True)
      (waitForSelector E sel (Some 5000) True) s = (r1, s1)"
    by (cases "perform (WaitForSelector sel (Some 5000) True)
      (waitForSelector E sel (Some 5000) True) s")
  show ?case
  proof (cases r1)
    case (Throws e)
    then have "scanned E no_usable_href sels s1 = Some s'" using Cons.prems(1) w by simp
    from Cons.IH[OF this Cons.prems(2)] show ?thesis using w Throws by simp
  next
    case (Returns u)
    obtain r2 s2 where q: "perform (QuerySelectorAll sel) (querySelectorAll E sel) s1 = (r2, s2)"
      by (cases "perform (QuerySelectorAll sel) (querySelectorAll E sel) s1")
    show ?thesis
    proof (cases r2)
      case (Throws e)
      then show ?thesis using Cons.prems(1) w q Returns by simp
    next
      case (Returns els)
      then have ok: "no_usable_href els" and sc: "scanned E no_usable_href sels s2 = Some s'"
        using Cons.prems(1) w q \<open>r1 = Returns u\<close> by (auto split: if_splits)
      have nt: "\<not> truthy (findEntryPoint els)" using ok by (simp add: no_usable_href_def)
      from Cons.IH[OF sc nt] show ?thesis
        using w q nt Returns \<open>r1 = Returns u\<close> by simp
    qed
  qed
qed

lemma no_href_falls_back:
  assumes "scanned E no_usable_href linkSelectors s3 = Some s4"
  shows "onLandingPage E date s3 = clickFallback E date s4"
proof -
  obtain h' where h: "\<not> truthy h'"
    "locateEntryPoint E (linkSelectors @ []) None s3 = locateEntryPoint E [] h' s4"
    using scanned_locate[OF assms, of None "[]"] by auto
  then have "locateEntryPoint E linkSelectors None s3 = (Returns h', s4)" by simp
  then show ?thesis
    using h(1) by (cases h') (auto simp: onLandingPage_def and_then_def)
qed

lemma booking_page_run:
  assumes "booking_page_reached E s3 s5"
  shows "onLandingPage E date s3 = primeDateAndReport E date s5"
  using assms unfolding booking_page_reached_def
proof (elim disjE exE conjE)
  fix before sel after s4 sa elements sb h
  assume ls: "linkSelectors = before @ sel # after"
    and sc: "scanned E no_usable_href before s3 = Some s4"
    and w: "perform (WaitForSelector sel (Some 5000) True)
           (waitForSelector E sel (Some 5000) True) s4 = (Returns (), sa)"
    and q: "perform (QuerySelectorAll sel) (querySelectorAll E sel) sa = (Returns elements, sb)"
    and f: "findEntryPoint elements = Some h" and ne: "h \<noteq> []"
    and g: "perform (Goto h) (goto E h) sb = (Returns (), s5)"
  obtain h' where h: "\<not> truthy h'"
    "locateEntryPoint E (before @ sel # after) None s3 = locateEntryPoint E (sel # after) h' s4"
    using scanned_locate[OF sc, of None "sel # after"] by auto
  have "locateEntryPoint E (sel # after) h' s4 = (Returns (Some h), sb)"
    using w q f ne by simp
  then have "locateEntryPoint E linkSelectors None s3 = (Returns (Some h), sb)"
    using h(2) ls by simp
  then show ?thesis using ne g by (simp add: onLandingPage_def and_then_def)
next
  fix s4 elements el sa sb
  assume sc: "scanned E no_usable_href linkSelectors s3 = Some s4"
    and q: "perform (QuerySelectorAll ''a,button'') (querySelectorAll E ''a,button'') s4 =
           (Returns elements, sa)"
    and f: "firstMatch elements = Some el"
    and k: "perform (Click el) (click E el) sa = (Returns (), sb)"
    and n: "perform (WaitForNavigation 10000) (waitForNavigation E 10000) sb = (Returns (), s5)"
  have "onLandingPage E date s3 = clickFallback E date s4"
    using no_href_falls_back[OF sc] .
  then show ?thesis
    using q f k n by (simp add: clickFallback_def clickMatching_def and_then_def ret_def)
qed



lemma site_landing:
  assumes "getStore E = (\<lambda>w. True)" "MYBROWSER E = (\<lambda>w. True)"
    "encodeURIComponent E = (\<lambda>q. q)" "launch E = returns_unit" "newPage E = returns_unit"
    "goto E = (\<lambda>u w. (Returns (), u))" "waitForSelector E = (\<lambda>sel t v. returns_unit)"
    "page_content E = (\<lambda>w. (Returns search_html, w))" "browser_close E = returns_unit"
  shows "landing_page_reached E ''Pebble Creek'' (''about:blank'', [])
     ''https://www.pebblecreek-golf.example/''
     (''https://www.pebblecreek-golf.example/'',
      [(Launch, True), (NewPage, True),
       (Goto ''https://www.google.com/search?q=Pebble Creek golf course official website'', True),
       (WaitForSelector ''body'' None False, True), (PageContent, True), (BrowserClose, True),
       (NewPage, True), (Goto ''https://www.pebblecreek-golf.example/'', True)])"
  unfolding landing_page_reached_def
  by (simp add: assms perform_def returns_unit_def googleSearchUrl_def search_html_course
        del: extractCourseUrl.simps)






lemma primeDateAndReport_date:
  assumes "d \<noteq> []"
  shows "\<exists>dateSet s6.
     setDateLoop E d dateSelectors s5 = (Returns dateSet, s6) \<and>
     primeDateAndReport E (Some d) s5 =
       (if dateSet then
          (Returns (page_url E (sleep E 2000 (fst s6))),
           (sleep E 2000 (fst s6), snd s6 @ [(Sleep 2000, True)]))
        else (Returns (page_url E (fst s6)), s6))"
proof -
  obtain dateSet s6 where h: "setDateLoop E d dateSelectors s5 = (Returns dateSet, s6)"
    using setDateLoop_returns by blast
  show ?thesis
    using h assms
    by (auto simp: primeDateAndReport_def primeDate_def and_then_def ret_def perform_def)
qed

lemma no_date_calls:
  "getStore pebble_creek_no_date = (\<lambda>w. True)" "MYBROWSER pebble_creek_no_date = (\<lambda>w. True)"
  "encodeURIComponent pebble_creek_no_date = (\<lambda>q. q)"
  "launch pebble_creek_no_date = returns_unit" "newPage pebble_creek_no_date = returns_unit"
  "goto pebble_creek_no_date = (\<lambda>u w. (Returns (), u))"
  "waitForSelector pebble_creek_no_date = (\<lambda>sel t v. returns_unit)"
  "page_content pebble_creek_no_date = (\<lambda>w. (Returns search_html, w))"
  "browser_close pebble_creek_no_date = returns_unit"
  "querySelectorAll pebble_creek_no_date ''a'' = (\<lambda>w. (Returns [home_link, book_link], w))"
  "querySelector pebble_creek_no_date =
     (\<lambda>sel w. (Throws ''Error: failed to find element matching selector'', w))"
  "page_url pebble_creek_no_date = (\<lambda>w. w)"
  "page_close pebble_creek_no_date = returns_unit"
  by (simp_all add: pebble_creek_no_date_def pebble_creek_def calm_def)

lemma no_date_close_fails_calls:
  "getStore pebble_creek_no_date_close_fails = (\<lambda>w. True)"
  "MYBROWSER pebble_creek_no_date_close_fails = (\<lambda>w. True)"
  "encodeURIComponent pebble_creek_no_date_close_fails = (\<lambda>q. q)"
  "launch pebble_creek_no_date_close_fails = returns_unit"
  "newPage pebble_creek_no_date_close_fails = returns_unit"
  "goto pebble_creek_no_date_close_fails = (\<lambda>u w. (Returns (), u))"
  "waitForSelector pebble_creek_no_date_close_fails = (\<lambda>sel t v. returns_unit)"
  "page_content pebble_creek_no_date_close_fails = (\<lambda>w. (Returns search_html, w))"
  "browser_close pebble_creek_no_date_close_fails = returns_unit"
  "querySelectorAll pebble_creek_no_date_close_fails ''a'' =
     (\<lambda>w. (Returns [home_link, book_link], w))"
  "querySelector pebble_creek_no_date_close_fails =
     (\<lambda>sel w. (Throws ''Error: failed to find element matching selector'', w))"
  "page_url pebble_creek_no_date_close_fails = (\<lambda>w. w)"
  "page_close pebble_creek_no_date_close_fails =
     (\<lambda>w. (Throws ''Error: Protocol error (Target.closeTarget): Target closed'', w))"
  by (simp_all add: pebble_creek_no_date_close_fails_def pebble_creek_no_date_def
        pebble_creek_def calm_def)

text \<open>
  Claim C6, as stated: with a date argument, when every selector strategy fails to set the
  date, the procedure still returns the page's current URL. On a site whose link "Book
  Tee Times" leads to the booking page, where each date selector appears and none finds
  an element, and with a \<^verbatim>\<open>page.close()\<close> that throws in the \<^verbatim>\<open>finally\<close>, the page's
  current URL is the booking page's, and the procedure returns the outer \<^verbatim>\<open>catch\<close>'s
  string in its place.
\<close>

theorem date_failure_counterexample:
  "findTeeTimes pebble_creek_no_date_close_fails ''Pebble Creek'' (Some ''2024-06-01'')
     (''about:blank'', []) =
     (Returns ''Unexpected error: Error: Protocol error (Target.closeTarget): Target closed'',
      (''https://pebblecreek-golf.example/tee-times'',
       [(Launch, True), (NewPage, True),
        (Goto ''https://www.google.com/search?q=Pebble Creek golf course official website'', True),
        (WaitForSelector ''body'' None False, True), (PageContent, True), (BrowserClose, True),
        (NewPage, True), (Goto ''https://www.pebblecreek-golf.example/'', True),
        (WaitForSelector ''a'' (Some 5000) True, True), (QuerySelectorAll ''a'', True),
        (Goto ''https://pebblecreek-golf.example/tee-times'', True)] @
       probes_failed dateSelectors @ [(PageClose, False)])) \<and>
   page_url pebble_creek_no_date_close_fails ''https://pebblecreek-golf.example/tee-times'' =
     ''https://pebblecreek-golf.example/tee-times''"
  by (simp add: findTeeTimes_def findTeeTimesOnPage_def teeTimesFlow_def browse_def
        browse_url_def browse_try_def googleSearchUrl_def linkSelectors_def
        primeDateAndReport_def primeDate_def trySelector_def dateSelectors_def
        no_date_close_fails_calls search_html_course
        landing_page_entry returns_unit_def prog_defs
        del: findEntryPoint.simps extractCourseUrl.simps)

text \<open>
  Claim C6, amended. Take a run of \<^verbatim>\<open>findTeeTimes\<close> with a non-empty date that has
  reached the booking page. The loop over the date selectors returns, and says whether
  the date was set. When it was not, the page's current URL is read at once; when it was,
  the program first sleeps 2000 ms and reads the URL after that. The procedure returns
  that URL, with nothing that tells the two cases apart, provided \<^verbatim>\<open>page.close()\<close>
  returns; when \<^verbatim>\<open>page.close()\<close> throws, it returns "Unexpected error: " and the
  error. In particular, when no date selector resolves to an input element, the URL read
  right after the last selector is what is returned.
\<close>

theorem date_failure_is_not_fatal:
  "(landing_page_reached E courseName s courseUrl s3 \<and> booking_page_reached E s3 s5 \<and>
    d \<noteq> [] \<longrightarrow>
      (\<exists>dateSet s6.
         setDateLoop E d dateSelectors s5 = (Returns dateSet, s6) \<and>
         findTeeTimes E courseName (Some d) s =
           (if dateSet then
              (case perform PageClose (page_close E)
                      (sleep E 2000 (fst s6), snd s6 @ [(Sleep 2000, True)]) of
                 (Returns u, s8) \<Rightarrow> (Returns (page_url E (sleep E 2000 (fst s6))), s8)
               | (Throws e, s8) \<Rightarrow> (Returns (''Unexpected error: '' @ e), s8))
            else
              (case perform PageClose (page_close E) s6 of
                 (Returns u, s8) \<Rightarrow> (Returns (page_url E (fst s6)), s8)
               | (Throws e, s8) \<Rightarrow> (Returns (''Unexpected error: '' @ e), s8))))) \<and>
   (landing_page_reached E courseName s courseUrl s3 \<and> booking_page_reached E s3 s5 \<and>
    d \<noteq> [] \<and> none_resolves E dateSelectors s5 = Some s6 \<longrightarrow>
      findTeeTimes E courseName (Some d) s =
        (case perform PageClose (page_close E) s6 of
           (Returns u, s8) \<Rightarrow> (Returns (page_url E (fst s6)), s8)
         | (Throws e, s8) \<Rightarrow> (Returns (''Unexpected error: '' @ e), s8)))"
proof -
  have 1: "\<exists>dateSet s6.
         setDateLoop E d dateSelectors s5 = (Returns dateSet, s6) \<and>
         findTeeTimes E courseName (Some d) s =
           (if dateSet then
              (case perform PageClose (page_close E)
                      (sleep E 2000 (fst s6), snd s6 @ [(Sleep 2000, True)]) of
                 (Returns u, s8) \<Rightarrow> (Returns (page_url E (sleep E 2000 (fst s6))), s8)
               | (Throws e, s8) \<Rightarrow> (Returns (''Unexpected error: '' @ e), s8))
            else
              (case perform PageClose (page_close E) s6 of
                 (Returns u, s8) \<Rightarrow> (Returns (page_url E (fst s6)), s8)
               | (Throws e, s8) \<Rightarrow> (Returns (''Unexpected error: '' @ e), s8)))"
    if l: "landing_page_reached E courseName s courseUrl s3"
      and b: "booking_page_reached E s3 s5" and d: "d \<noteq> []"
  proof -
    obtain dateSet s6 where
      h: "setDateLoop E d dateSelectors s5 = (Returns dateSet, s6)" and
      p: "primeDateAndReport E (Some d) s5 =
       (if dateSet then
          (Returns (page_url E (sleep E 2000 (fst s6))),
           (sleep E 2000 (fst s6), snd s6 @ [(Sleep 2000, True)]))
        else (Returns (page_url E (fst s6)), s6))"
      using primeDateAndReport_date[OF d] by blast
    have o: "onLandingPage E (Some d) s3 = primeDateAndReport E (Some d) s5"
      using booking_page_run[OF b] .
    have "findTeeTimes E courseName (Some d) s =
           (if dateSet then
              (case perform PageClose (page_close E)
                      (sleep E 2000 (fst s6), snd s6 @ [(Sleep 2000, True)]) of
                 (Returns u, s8) \<Rightarrow> (Returns (page_url E (sleep E 2000 (fst s6))), s8)
               | (Throws e, s8) \<Rightarrow> (Returns (''Unexpected error: '' @ e), s8))
            else
              (case perform PageClose (page_close E) s6 of
                 (Returns u, s8) \<Rightarrow> (Returns (page_url E (fst s6)), s8)
               | (Throws e, s8) \<Rightarrow> (Returns (''Unexpected error: '' @ e), s8)))"
    proof (cases dateSet)
      case True
      then have "onLandingPage E (Some d) s3 =
          (Returns (page_url E (sleep E 2000 (fst s6))),
           (sleep E 2000 (fst s6), snd s6 @ [(Sleep 2000, True)]))"
        using o p by simp
      from run_returns[OF l this] True show ?thesis by (simp add: closing_def)
    next
      case False
      then have "onLandingPage E (Some d) s3 = (Returns (page_url E (fst s6)), s6)"
        using o p by simp
      from run_returns[OF l this] False show ?thesis by (simp add: closing_def)
    qed
    then show ?thesis using h by blast
  qed
  have 2: "findTeeTimes E courseName (Some d) s =
        (case perform PageClose (page_close E) s6 of
           (Returns u, s8) \<Rightarrow> (Returns (page_url E (fst s6)), s8)
         | (Throws e, s8) \<Rightarrow> (Returns (''Unexpected error: '' @ e), s8))"
    if l: "landing_page_reached E courseName s courseUrl s3"
      and b: "booking_page_reached E s3 s5" and d: "d \<noteq> []"
      and n: "none_resolves E dateSelectors s5 = Some s6"
  proof -
    have h: "setDateLoop E d dateSelectors s5 = (Returns False, s6)"
      using none_resolves_loop[OF n] .
    have "primeDateAndReport E (Some d) s5 = (Returns (page_url E (fst s6)), s6)"
      using primeDateAndReport_date[OF d, of E s5] h by auto
    then have "onLandingPage E (Some d) s3 = (Returns (page_url E (fst s6)), s6)"
      using booking_page_run[OF b, of "Some d"] by simp
    from run_returns[OF l this] show ?thesis by (simp add: closing_def)
  qed
  show ?thesis using 1 2 by blast
qed

theorem date_failure_is_not_fatal_witness:
  "findTeeTimes pebble_creek ''Pebble Creek'' (Some ''2024-06-01'') (''about:blank'', []) =
     (Returns ''https://pebblecreek-golf.example/tee-times'',
      (''https://pebblecreek-golf.example/tee-times'',
       [(Launch, True), (NewPage, True),
        (Goto ''https://www.google.com/search?q=Pebble Creek golf course official website'', True),
        (WaitForSelector ''body'' None False, True), (PageContent, True), (BrowserClose, True),
        (NewPage, True), (Goto ''https://www.pebblecreek-golf.example/'', True),
        (WaitForSelector ''a'' (Some 5000) True, True), (QuerySelectorAll ''a'', True),
        (Goto ''https://pebblecreek-golf.example/tee-times'', True),
        (WaitForSelector (hd dateSelectors) (Some 3000) True, True),
        (QuerySelector (hd dateSelectors), True), (QuerySelector (hd dateSelectors), True),
        (SetValue date_input ''2024-06-01'', True),
        (DispatchEvent date_input ''input'' True, True),
        (DispatchEvent date_input ''change'' True, True),
        (Sleep 2000, True), (PageClose, True)])) \<and>
   findTeeTimes pebble_creek_no_date ''Pebble Creek'' (Some ''2024-06-01'') (''about:blank'', []) =
     (Returns ''https://pebblecreek-golf.example/tee-times'',
      (''https://pebblecreek-golf.example/tee-times'',
       [(Launch, True), (NewPage, True),
        (Goto ''https://www.google.com/search?q=Pebble Creek golf course official website'', True),
        (WaitForSelector ''body'' None False, True), (PageContent, True), (BrowserClose, True),
        (NewPage, True), (Goto ''https://www.pebblecreek-golf.example/'', True),
        (WaitForSelector ''a'' (Some 5000) True, True), (QuerySelectorAll ''a'', True),
        (Goto ''https://pebblecreek-golf.example/tee-times'', True)] @
       probes_failed dateSelectors @ [(PageClose, True)]))"
proof -
  let ?u = "''https://www.pebblecreek-golf.example/''"
  let ?t = "''https://pebblecreek-golf.example/tee-times''"
  let ?d = "''2024-06-01''"
  let ?l3 = "[(Launch, True), (NewPage, True),
        (Goto ''https://www.google.com/search?q=Pebble Creek golf course official website'', True),
        (WaitForSelector ''body'' None False, True), (PageContent, True), (BrowserClose, True),
        (NewPage, True), (Goto ?u, True)]"
  let ?l5 = "?l3 @ [(WaitForSelector ''a'' (Some 5000) True, True), (QuerySelectorAll ''a'', True),
        (Goto ?t, True)]"
  let ?l6 = "?l5 @ [(WaitForSelector (hd dateSelectors) (Some 3000) True, True),
        (QuerySelector (hd dateSelectors), True), (QuerySelector (hd dateSelectors), True),
        (SetValue date_input ?d, True),
        (DispatchEvent date_input ''input'' True, True),
        (DispatchEvent date_input ''change'' True, True)]"
  have ls: "linkSelectors = [] @ ''a'' # [''button'']"
    by (simp add: linkSelectors_def)
  have ne: "?t \<noteq> []" "?d \<noteq> []"
    by simp_all
  \<comment> \<open>the site where the first date selector sets the date\<close>
  have l: "landing_page_reached pebble_creek ''Pebble Creek'' (''about:blank'', []) ?u (?u, ?l3)"
    by (rule site_landing) (simp_all add: pebble_creek_calls)
  have b1: "scanned pebble_creek no_usable_href [] (?u, ?l3) = Some (?u, ?l3)"
    by simp
  have b2: "perform (WaitForSelector ''a'' (Some 5000) True)
      (waitForSelector pebble_creek ''a'' (Some 5000) True) (?u, ?l3) =
      (Returns (), (?u, ?l3 @ [(WaitForSelector ''a'' (Some 5000) True, True)]))"
    by (simp add: perform_def pebble_creek_calls returns_unit_def)
  have b3: "perform (QuerySelectorAll ''a'') (querySelectorAll pebble_creek ''a'')
      (?u, ?l3 @ [(WaitForSelector ''a'' (Some 5000) True, True)]) =
      (Returns [home_link, book_link],
       (?u, ?l3 @ [(WaitForSelector ''a'' (Some 5000) True, True), (QuerySelectorAll ''a'', True)]))"
    by (simp add: perform_def pebble_creek_calls)
  have b4: "perform (Goto ?t) (goto pebble_creek ?t)
      (?u, ?l3 @ [(WaitForSelector ''a'' (Some 5000) True, True), (QuerySelectorAll ''a'', True)]) =
      (Returns (), (?t, ?l5))"
    by (simp add: perform_def pebble_creek_calls)
  have b: "booking_page_reached pebble_creek (?u, ?l3) (?t, ?l5)"
    unfolding booking_page_reached_def
    using ls b1 b2 b3 landing_page_entry ne(1) b4 by blast
  have loop: "setDateLoop pebble_creek ?d dateSelectors (?t, ?l5) = (Returns True, (?t, ?l6))"
    using date_fixture_tags(2)
    by (simp add: trySelector_def dateSelectors_def pebble_creek_calls returns_unit_def prog_defs)
  obtain dateSet s6 where
    h: "setDateLoop pebble_creek ?d dateSelectors (?t, ?l5) = (Returns dateSet, s6)" and
    e: "findTeeTimes pebble_creek ''Pebble Creek'' (Some ?d) (''about:blank'', []) =
           (if dateSet then
              (case perform PageClose (page_close pebble_creek)
                      (sleep pebble_creek 2000 (fst s6), snd s6 @ [(Sleep 2000, True)]) of
                 (Returns u, s8) \<Rightarrow> (Returns (page_url pebble_creek (sleep pebble_creek 2000 (fst s6))), s8)
               | (Throws e, s8) \<Rightarrow> (Returns (''Unexpected error: '' @ e), s8))
            else
              (case perform PageClose (page_close pebble_creek) s6 of
                 (Returns u, s8) \<Rightarrow> (Returns (page_url pebble_creek (fst s6)), s8)
               | (Throws e, s8) \<Rightarrow> (Returns (''Unexpected error: '' @ e), s8)))"
    using date_failure_is_not_fatal
      [where E = pebble_creek and courseName = "''Pebble Creek''" and s = "(''about:blank'', [])"
         and courseUrl = ?u and ?s3.0 = "(?u, ?l3)" and ?s5.0 = "(?t, ?l5)" and d = ?d]
      l b ne(2) by blast
  have "dateSet" "s6 = (?t, ?l6)"
    using h loop by simp_all
  then have 1: "findTeeTimes pebble_creek ''Pebble Creek'' (Some ?d) (''about:blank'', []) =
     (Returns ?t, (?t, ?l6 @ [(Sleep 2000, True), (PageClose, True)]))"
    using e by (simp add: perform_def pebble_creek_calls returns_unit_def)
  \<comment> \<open>the site where no date selector finds an element\<close>
  have l': "landing_page_reached pebble_creek_no_date ''Pebble Creek'' (''about:blank'', []) ?u
      (?u, ?l3)"
    by (rule site_landing) (simp_all add: no_date_calls)
  have c1: "scanned pebble_creek_no_date no_usable_href [] (?u, ?l3) = Some (?u, ?l3)"
    by simp
  have c2: "perform (WaitForSelector ''a'' (Some 5000) True)
      (waitForSelector pebble_creek_no_date ''a'' (Some 5000) True) (?u, ?l3) =
      (Returns (), (?u, ?l3 @ [(WaitForSelector ''a'' (Some 5000) True, True)]))"
    by (simp add: perform_def no_date_calls returns_unit_def)
  have c3: "perform (QuerySelectorAll ''a'') (querySelectorAll pebble_creek_no_date ''a'')
      (?u, ?l3 @ [(WaitForSelector ''a'' (Some 5000) True, True)]) =
      (Returns [home_link, book_link],
       (?u, ?l3 @ [(WaitForSelector ''a'' (Some 5000) True, True), (QuerySelectorAll ''a'', True)]))"
    by (simp add: perform_def no_date_calls)
  have c4: "perform (Goto ?t) (goto pebble_creek_no_date ?t)
      (?u, ?l3 @ [(WaitForSelector ''a'' (Some 5000) True, True), (QuerySelectorAll ''a'', True)]) =
      (Returns (), (?t, ?l5))"
    by (simp add: perform_def no_date_calls)
  have b': "booking_page_reached pebble_creek_no_date (?u, ?l3) (?t, ?l5)"
    unfolding booking_page_reached_def
    using ls c1 c2 c3 landing_page_entry ne(1) c4 by blast
  have n: "none_resolves pebble_creek_no_date dateSelectors (?t, ?l5) =
      Some (?t, ?l5 @ probes_failed dateSelectors)"
    by (simp add: dateSelectors_def perform_def no_date_calls returns_unit_def)
  have "findTeeTimes pebble_creek_no_date ''Pebble Creek'' (Some ?d) (''about:blank'', []) =
        (case perform PageClose (page_close pebble_creek_no_date)
                (?t, ?l5 @ probes_failed dateSelectors) of
           (Returns u, s8) \<Rightarrow>
             (Returns (page_url pebble_creek_no_date (fst (?t, ?l5 @ probes_failed dateSelectors))), s8)
         | (Throws e, s8) \<Rightarrow> (Returns (''Unexpected error: '' @ e), s8))"
    using date_failure_is_not_fatal
      [where E = pebble_creek_no_date and courseName = "''Pebble Creek''"
         and s = "(''about:blank'', [])"
         and courseUrl = ?u and ?s3.0 = "(?u, ?l3)" and ?s5.0 = "(?t, ?l5)" and d = ?d
         and ?s6.0 = "(?t, ?l5 @ probes_failed dateSelectors)"]
      l' b' ne(2) n by blast
  then have 2: "findTeeTimes pebble_creek_no_date ''Pebble Creek'' (Some ?d) (''about:blank'', []) =
     (Returns ?t, (?t, ?l5 @ probes_failed dateSelectors @ [(PageClose, True)]))"
    by (simp add: perform_def no_date_calls returns_unit_def)
  show ?thesis using 1 2 by simp
qed

section \<open>The tool registry\<close>

text \<open>
  Claim C9. Every tool of the registry that has no \<^verbatim>\<open>execute\<close> function has an
  entry under its name in the executions table: \<^verbatim>\<open>getWeatherInformation\<close> is the
  only tool without \<^verbatim>\<open>execute\<close>, and the table's only key is
  \<^verbatim>\<open>getWeatherInformation\<close>.
\<close>

theorem confirm_required_tools_have_executions:
  "confirmRequired (tools E) = [''getWeatherInformation''] \<and>
   map fst executions = [''getWeatherInformation''] \<and>
   list_all (\<lambda>name. name \<in> set (map fst executions)) (confirmRequired (tools E))"
  by (simp add: confirmRequired_def tools_def executions_def getWeatherInformation_def
        getLocalTime_def scheduleTask_def getScheduledTasks_def cancelScheduledTask_def
        browse_tool_def findGolfCourseWebsite_def findTeeTimes_tool_def)

text \<open>
  Claim C10. For every location, \<^verbatim>\<open>getLocalTime\<close> returns the string
  \<^verbatim>\<open>10am\<close> and changes nothing: the result does not depend on the location, so two
  runs with any two locations give the same value. This is the function the registry
  holds under \<^verbatim>\<open>getLocalTime\<close>.
\<close>

theorem getLocalTime_constant:
  "map_of (tools E) ''getLocalTime'' = Some getLocalTime \<and>
   execute getLocalTime = Some (With_location getLocalTime_execute) \<and>
   getLocalTime_execute location s = (Returns ''10am'', s) \<and>
   fst (getLocalTime_execute location1 s1) = fst (getLocalTime_execute location2 s2)"
  by (simp add: tools_def getLocalTime_def getLocalTime_execute_def ret_def)

section \<open>\<^verbatim>\<open>browse\<close>: sessions and results\<close>

text \<open>
  Claim C1 holds for \<^verbatim>\<open>findTeeTimes\<close> (lemma \<open>page_closed_exactly_once\<close>: its
  \<^verbatim>\<open>finally\<close> closes the page on every path) and fails for \<^verbatim>\<open>browse\<close>, where
  \<^verbatim>\<open>browser.close()\<close> is the last statement of the \<^verbatim>\<open>try\<close> body: when a call
  before it throws, the \<^verbatim>\<open>catch\<close> records the error and the launched browser is never
  closed. Here the first of two sites cannot be reached: two browsers are launched, and
  only the second is closed.
\<close>

theorem browse_leaves_session_open_on_error:
  "browse one_site_down [''https://down.example/'', ''https://club.example/''] False ((), []) =
     (Returns [Str ''Error browsing URL https://down.example/: Error: net::ERR_NAME_NOT_RESOLVED'',
               Arr []],
      ((), [(Launch, True), (NewPage, True), (Goto ''https://down.example/'', False),
            (Launch, True), (NewPage, True), (Goto ''https://club.example/'', True),
            (WaitForSelector ''body'' None False, True), (QuerySelectorAll ''a'', True),
            (BrowserClose, True)]))"
  by (simp add: browse_def browse_url_def browse_try_def one_site_down_def calm_def
        returns_unit_def prog_defs)

text \<open>
  Claim C7 fails where \<^verbatim>\<open>browser.close()\<close> throws: the result of the URL has been
  pushed already, and the \<^verbatim>\<open>catch\<close> pushes an error text after it, so one URL gets
  two results.
\<close>

theorem browse_two_results_for_one_url:
  "browse failing_close [''https://club.example/''] False ((), []) =
     (Returns [Arr [],
               Str ''Error browsing URL https://club.example/: Error: Protocol error (Browser.close): Target closed''],
      ((), [(Launch, True), (NewPage, True), (Goto ''https://club.example/'', True),
            (WaitForSelector ''body'' None False, True), (QuerySelectorAll ''a'', True),
            (BrowserClose, False)]))"
  by (simp add: browse_def browse_url_def browse_try_def failing_close_def calm_def
        returns_unit_def prog_defs)

text \<open>
  As long as \<^verbatim>\<open>browser.close()\<close> returns, \<^verbatim>\<open>browse\<close> does give one result per
  URL: each URL adds exactly one entry, the page's result or the error text, and the loop
  goes on with the next URL.
\<close>

lemma browse_url_one:
  assumes "\<forall>w. fst (browser_close E w) = Returns ()"
  shows "\<exists>v s'. browse_url E rh u (rs, s) = (Returns (), (rs @ [v], s'))"
proof -
  have c: "\<And>w e w'. browser_close E w \<noteq> (Throws e, w')"
    using assms by (metis fst_conv outcome.distinct(1))
  show ?thesis
    by (auto simp: c browse_url_def browse_try_def prog_defs split: prod.splits outcome.splits)
qed

lemma browse_loop_results:
  assumes "\<forall>w. fst (browser_close E w) = Returns ()"
  shows "\<exists>vs s'. browse_loop E rh urls (rs, s) = (Returns (), (rs @ vs, s')) \<and>
           length vs = length urls"
proof (induction urls arbitrary: rs s)
  case Nil
  show ?case by (simp add: ret_def)
next
  case (Cons u urls)
  obtain v s1 where 1: "browse_url E rh u (rs, s) = (Returns (), (rs @ [v], s1))"
    using browse_url_one[OF assms] by blast
  obtain vs s2 where 2:
    "browse_loop E rh urls (rs @ [v], s1) = (Returns (), ((rs @ [v]) @ vs, s2))"
    "length vs = length urls"
    using Cons.IH by blast
  have "browse_loop E rh (u # urls) (rs, s) = (Returns (), (rs @ (v # vs), s2))"
    using 1 2 by (simp add: and_then_def)
  then show ?case using 2(2) by (metis length_Cons)
qed

lemma browse_one_result_per_url_when_close_returns:
  assumes "\<forall>w. fst (browser_close E w) = Returns ()"
  shows "\<exists>responses s'. browse E urls rh s = (Returns responses, s') \<and>
           length responses = length urls"
  using browse_loop_results[OF assms, of rh urls "[]" s] by (auto simp: browse_def)

section \<open>The chat-turn handler\<close>

text \<open>
  Claim C8. When the reconciliation step (\<^verbatim>\<open>processToolCalls\<close>) throws, the handler
  catches the exception: it appends exactly one message to the transcript, an assistant
  message whose text holds the error, and goes on in the same turn by streaming a reply
  to the extended transcript. The exception is not thrown again: when the calls of
  that reply return, the handler returns.
\<close>

theorem reconcile_failure_is_caught:
  "processToolCalls E messages w = (Throws e, w1) \<longrightarrow>
     fst (snd (onChatMessage E (messages, (w, tr)))) = messages @ [errorMessage E w1 e] \<and>
     msg_role (errorMessage E w1 e) = Assistant \<and>
     msg_content (errorMessage E w1 e) =
       ''I encountered an error while trying to perform a task: '' @ e @
       ''. Let'' @ [CHR 0x27] @ ''s continue our conversation. How can I assist you further?'' \<and>
     (\<exists>ok rest. snd (snd (snd (onChatMessage E (messages, (w, tr))))) =
        tr @ [(ProcessToolCalls messages, False),
              (StreamText ''You are a helpful assistant.'' (messages @ [errorMessage E w1 e])
                 False None, ok)] @ rest) \<and>
     (streamText E ''You are a helpful assistant.'' (messages @ [errorMessage E w1 e])
        False None w1 = (Returns (), w2) \<and>
      mergeIntoDataStream E w2 = (Returns (), w3) \<longrightarrow>
        onChatMessage E (messages, (w, tr)) =
          (Returns (),
           (messages @ [errorMessage E w1 e],
            (w3, tr @ [(ProcessToolCalls messages, False),
                       (StreamText ''You are a helpful assistant.''
                          (messages @ [errorMessage E w1 e]) False None, True),
                       (MergeIntoDataStream, True)]))))"
proof
  assume p: "processToolCalls E messages w = (Throws e, w1)"
  let ?pushed = "messages @ [errorMessage E w1 e]"
  let ?s1 = "(w1, tr @ [(ProcessToolCalls messages, False)])"
  let ?cont = "and_then
      (in_world (perform (StreamText ''You are a helpful assistant.'' ?pushed False None)
         (streamText E ''You are a helpful assistant.'' ?pushed False None)))
      (\<lambda>_. in_world (perform MergeIntoDataStream (mergeIntoDataStream E)))"
  have eq: "onChatMessage E (messages, (w, tr)) = ?cont (?pushed, ?s1)"
    using p by (simp add: onChatMessage_def try_catch_def and_then_def in_world_def perform_def Let_def)
  obtain r2 w2' where st: "streamText E ''You are a helpful assistant.'' ?pushed False None w1 =
      (r2, w2')"
    by (cases "streamText E ''You are a helpful assistant.'' ?pushed False None w1")
  obtain r3 w3' where mg: "mergeIntoDataStream E w2' = (r3, w3')"
    by (cases "mergeIntoDataStream E w2'")
  have a: "fst (snd (onChatMessage E (messages, (w, tr)))) = ?pushed"
    using eq st mg by (cases r2) (simp_all add: and_then_def in_world_def perform_def)
  have b: "\<exists>ok rest. snd (snd (snd (onChatMessage E (messages, (w, tr))))) =
        tr @ [(ProcessToolCalls messages, False),
              (StreamText ''You are a helpful assistant.'' ?pushed False None, ok)] @ rest"
    using eq st mg by (cases r2) (auto simp: and_then_def in_world_def perform_def)
  have c: "streamText E ''You are a helpful assistant.'' ?pushed False None w1 = (Returns (), w2) \<and>
      mergeIntoDataStream E w2 = (Returns (), w3) \<longrightarrow>
        onChatMessage E (messages, (w, tr)) =
          (Returns (),
           (?pushed,
            (w3, tr @ [(ProcessToolCalls messages, False),
                       (StreamText ''You are a helpful assistant.'' ?pushed False None, True),
                       (MergeIntoDataStream, True)])))"
    using eq by (simp add: and_then_def in_world_def perform_def)
  have d: "msg_role (errorMessage E w1 e) = Assistant \<and>
     msg_content (errorMessage E w1 e) =
       ''I encountered an error while trying to perform a task: '' @ e @
       ''. Let'' @ [CHR 0x27] @ ''s continue our conversation. How can I assist you further?''"
    by (simp add: errorMessage_def)
  show "fst (snd (onChatMessage E (messages, (w, tr)))) = ?pushed \<and>
     msg_role (errorMessage E w1 e) = Assistant \<and>
     msg_content (errorMessage E w1 e) =
       ''I encountered an error while trying to perform a task: '' @ e @
       ''. Let'' @ [CHR 0x27] @ ''s continue our conversation. How can I assist you further?'' \<and>
     (\<exists>ok rest. snd (snd (snd (onChatMessage E (messages, (w, tr))))) =
        tr @ [(ProcessToolCalls messages, False),
              (StreamText ''You are a helpful assistant.'' ?pushed False None, ok)] @ rest) \<and>
     (streamText E ''You are a helpful assistant.'' ?pushed False None w1 = (Returns (), w2) \<and>
      mergeIntoDataStream E w2 = (Returns (), w3) \<longrightarrow>
        onChatMessage E (messages, (w, tr)) =
          (Returns (),
           (?pushed,
            (w3, tr @ [(ProcessToolCalls messages, False),
                       (StreamText ''You are a helpful assistant.'' ?pushed False None, True),
                       (MergeIntoDataStream, True)]))))"
    using a b c d by blast
qed

theorem reconcile_failure_is_caught_witness:
  "onChatMessage failing_reconcile ([hello], ((), [])) =
     (Returns (),
      ([hello,
        \<lparr>msg_id = ''error-0'', msg_role = Assistant,
         msg_content = ''I encountered an error while trying to perform a task: '' @
           ''Error: tool result missing'' @ ''. Let'' @ [CHR 0x27] @
           ''s continue our conversation. How can I assist you further?'',
         createdAt = 0\<rparr>],
       ((), [(ProcessToolCalls [hello], False),
             (StreamText ''You are a helpful assistant.''
                ([hello] @ [errorMessage failing_reconcile () ''Error: tool result missing''])
                False None, True),
             (MergeIntoDataStream, True)])))"
proof -
  have p: "processToolCalls failing_reconcile [hello] () = (Throws ''Error: tool result missing'', ())"
    by (simp add: failing_reconcile_def calm_def)
  have st: "streamText failing_reconcile ''You are a helpful assistant.''
      ([hello] @ [errorMessage failing_reconcile () ''Error: tool result missing'']) False None () =
      (Returns (), ())"
    by (simp add: failing_reconcile_def calm_def returns_unit_def)
  have mg: "mergeIntoDataStream failing_reconcile () = (Returns (), ())"
    by (simp add: failing_reconcile_def calm_def returns_unit_def)
  have m: "errorMessage failing_reconcile () ''Error: tool result missing'' =
      \<lparr>msg_id = ''error-0'', msg_role = Assistant,
         msg_content = ''I encountered an error while trying to perform a task: '' @
           ''Error: tool result missing'' @ ''. Let'' @ [CHR 0x27] @
           ''s continue our conversation. How can I assist you further?'',
         createdAt = 0\<rparr>"
    by (simp add: errorMessage_def failing_reconcile_def calm_def digit_char_def)
  have "onChatMessage failing_reconcile ([hello], ((), [])) =
     (Returns (),
      ([hello] @ [errorMessage failing_reconcile () ''Error: tool result missing''],
       ((), [] @ [(ProcessToolCalls [hello], False),
             (StreamText ''You are a helpful assistant.''
                ([hello] @ [errorMessage failing_reconcile () ''Error: tool result missing''])
                False None, True),
             (MergeIntoDataStream, True)])))"
    using reconcile_failure_is_caught
      [of failing_reconcile "[hello]" "()" "''Error: tool result missing''" "()" "[]" "()" "()"]
      p st mg by blast
  then show ?thesis using m by simp
qed

section \<open>Whole runs of \<^verbatim>\<open>findTeeTimes\<close>\<close>

text \<open>
  The course's site is found through the search, the link "Book Tee Times" gives the
  href, and the page goes there directly; the page is closed at the end.
\<close>

lemma run_with_direct_href:
  "findTeeTimes pebble_creek ''Pebble Creek'' None (''about:blank'', []) =
     (Returns ''https://pebblecreek-golf.example/tee-times'',
      (''https://pebblecreek-golf.example/tee-times'',
       [(Launch, True), (NewPage, True),
        (Goto ''https://www.google.com/search?q=Pebble Creek golf course official website'', True),
        (WaitForSelector ''body'' None False, True), (PageContent, True), (BrowserClose, True),
        (NewPage, True), (Goto ''https://www.pebblecreek-golf.example/'', True),
        (WaitForSelector ''a'' (Some 5000) True, True), (QuerySelectorAll ''a'', True),
        (Goto ''https://pebblecreek-golf.example/tee-times'', True),
        (PageClose, True)]))"
  by (simp add: findTeeTimes_def findTeeTimesOnPage_def teeTimesFlow_def browse_def
        browse_url_def browse_try_def googleSearchUrl_def linkSelectors_def
        primeDateAndReport_def primeDate_def pebble_creek_calls search_html_course
        landing_page_entry returns_unit_def prog_defs
        del: findEntryPoint.simps extractCourseUrl.simps)

text \<open>The same run with a date: the first date selector sets it, and the URL is read after the pause.\<close>

lemma run_with_date:
  "findTeeTimes pebble_creek ''Pebble Creek'' (Some ''2024-06-01'') (''about:blank'', []) =
     (Returns ''https://pebblecreek-golf.example/tee-times'',
      (''https://pebblecreek-golf.example/tee-times'',
       [(Launch, True), (NewPage, True),
        (Goto ''https://www.google.com/search?q=Pebble Creek golf course official website'', True),
        (WaitForSelector ''body'' None False, True), (PageContent, True), (BrowserClose, True),
        (NewPage, True), (Goto ''https://www.pebblecreek-golf.example/'', True),
        (WaitForSelector ''a'' (Some 5000) True, True), (QuerySelectorAll ''a'', True),
        (Goto ''https://pebblecreek-golf.example/tee-times'', True),
        (WaitForSelector (hd dateSelectors) (Some 3000) True, True),
        (QuerySelector (hd dateSelectors), True), (QuerySelector (hd dateSelectors), True),
        (SetValue date_input ''2024-06-01'', True),
        (DispatchEvent date_input ''input'' True, True),
        (DispatchEvent date_input ''change'' True, True),
        (Sleep 2000, True), (PageClose, True)]))"
  using date_fixture_tags(2)
  by (simp add: findTeeTimes_def findTeeTimesOnPage_def teeTimesFlow_def browse_def
        browse_url_def browse_try_def googleSearchUrl_def linkSelectors_def
        primeDateAndReport_def primeDate_def trySelector_def dateSelectors_def
        pebble_creek_calls search_html_course
        landing_page_entry returns_unit_def prog_defs
        del: findEntryPoint.simps extractCourseUrl.simps)

end
